theory Spec2Isabelle
  imports Complex_Main
begin

section \<open>Exceptions and results\<close>

text \<open>
  The scripts \<^verbatim>\<open>train.py\<close> and \<^verbatim>\<open>test.py\<close> fail by raising Python exceptions.
  An exception is a value here; each constructor carries the place that raises it.
\<close>

datatype assert_site =
    RootShape         \<comment> \<open>\<^verbatim>\<open>assert root_p_offset.shape == root_p_t.shape\<close>\<close>
  | PoseStackEmpty    \<comment> \<open>\<^verbatim>\<open>assert len(pose_stack) == 0\<close>\<close>

datatype index_site =
    FrameAxis         \<comment> \<open>an index on the time axis of a ground-truth tensor\<close>
  | BatchAxis         \<comment> \<open>\<^verbatim>\<open>inference_batch_index\<close> on the batch axis of the data\<close>
  | PoseStackPop      \<comment> \<open>\<^verbatim>\<open>pose_stack.pop(0)\<close> on an empty list\<close>
  | TensorAxis        \<comment> \<open>an index or axis a tensor does not have, other than the above\<close>

datatype error =
    AssertionError assert_site
  | IndexError index_site
  | RuntimeError      \<comment> \<open>raised by a torch operation on tensors of incompatible shape\<close>
  | TypeError         \<comment> \<open>calling an object that is not callable\<close>
  | UnboundLocalError \<comment> \<open>reading a loop variable before its first assignment\<close>

definition bind_res :: "error + 'a \<Rightarrow> ('a \<Rightarrow> error + 'b) \<Rightarrow> error + 'b" where
  "bind_res m f = (case m of Inl e \<Rightarrow> Inl e | Inr x \<Rightarrow> f x)"

definition of_option :: "error \<Rightarrow> 'a option \<Rightarrow> error + 'a" where
  "of_option e m = (case m of None \<Rightarrow> Inl e | Some x \<Rightarrow> Inr x)"

text \<open>\<^verbatim>\<open>for t in range(n): body\<close>, the loop state passed along; an exception in the
  body ends the loop.\<close>

fun for_range :: "(nat \<Rightarrow> 's \<Rightarrow> error + 's) \<Rightarrow> nat list \<Rightarrow> 's \<Rightarrow> error + 's" where
  "for_range body [] s = Inr s"
| "for_range body (t # ts) s = bind_res (body t s) (for_range body ts)"

section \<open>Tensors\<close>

text \<open>
  A tensor whose rank is fixed by the code is a nested list: \<open>mat\<close> is a batch of
  feature rows (batch, width) and \<open>cube\<close> carries the leading time axis of length one
  that \<^verbatim>\<open>unsqueeze(0)\<close> adds in front of the recurrent core (1, batch, width).
  The entries are real numbers, the finite values an entry can take; \<open>float\<close> adds
  \<open>None\<close> for an entry that is not a finite number (an infinity or NaN). The sums and
  differences of the scripts are taken exactly. The norm and the quotient that
  normalise the quaternions are operations of the tensor library and are parameters of
  the model, see \<open>modules\<close>.
\<close>

type_synonym vec = "real list"
type_synonym mat = "real list list"
type_synonym cube = "real list list list"
type_synonym float = "real option"

text \<open>\<^verbatim>\<open>squeeze()\<close> returns a tensor whose rank depends on the sizes of the axes, so its
  result is a tensor of any rank.\<close>

datatype 'a tensor = Sc 'a | Ar "'a tensor list"

definition of_vec :: "'a list \<Rightarrow> 'a tensor" where
  "of_vec xs = Ar (map Sc xs)"

definition of_mat :: "'a list list \<Rightarrow> 'a tensor" where
  "of_mat xs = Ar (map of_vec xs)"

definition of_cube :: "'a list list list \<Rightarrow> 'a tensor" where
  "of_cube xs = Ar (map of_mat xs)"

definition of_quats :: "'a list list list list \<Rightarrow> 'a tensor" where
  "of_quats xs = Ar (map of_cube xs)"

fun shape :: "'a tensor \<Rightarrow> nat list" where
  "shape (Sc x) = []"
| "shape (Ar []) = [0]"
| "shape (Ar (x # xs)) = Suc (length xs) # shape x"

fun leaves :: "'a tensor \<Rightarrow> 'a list" where
  "leaves (Sc x) = [x]"
| "leaves (Ar xs) = concat (map leaves xs)"

text \<open>\<^verbatim>\<open>x.squeeze()\<close>: every axis of size one is dropped.\<close>

fun squeeze :: "'a tensor \<Rightarrow> 'a tensor" where
  "squeeze (Sc x) = Sc x"
| "squeeze (Ar [x]) = squeeze x"
| "squeeze (Ar xs) = Ar (map squeeze xs)"

text \<open>\<^verbatim>\<open>x[i]\<close> on a tensor; a tensor of rank zero has no axis to index.\<close>

fun tindex :: "'a tensor \<Rightarrow> nat \<Rightarrow> error + 'a tensor" where
  "tindex (Sc x) i = Inl (IndexError TensorAxis)"
| "tindex (Ar xs) i = (if i < length xs then Inr (xs ! i) else Inl (IndexError TensorAxis))"

text \<open>\<^verbatim>\<open>x.unsqueeze(1)\<close>: a new axis of size one after the first axis.\<close>

fun unsqueeze1 :: "'a tensor \<Rightarrow> error + 'a tensor" where
  "unsqueeze1 (Sc x) = Inl (IndexError TensorAxis)"
| "unsqueeze1 (Ar xs) = Inr (Ar (map (\<lambda>x. Ar [x]) xs))"

fun children :: "'a tensor \<Rightarrow> 'a tensor list option" where
  "children (Sc x) = None"
| "children (Ar xs) = Some xs"

fun all_equal :: "'a list \<Rightarrow> bool" where
  "all_equal [] = True"
| "all_equal (x # xs) = list_all (\<lambda>y. y = x) xs"

text \<open>\<^verbatim>\<open>torch.stack(xs, dim=1)\<close>: the list must not be empty and its tensors must have
  one shape, with a first axis.\<close>

definition stack1 :: "'a tensor list \<Rightarrow> error + 'a tensor" where
  "stack1 ts =
     (if ts = [] \<or> \<not> all_equal (map shape ts) then Inl RuntimeError
      else case those (map children ts) of
             None \<Rightarrow> Inl (IndexError TensorAxis)
           | Some rows \<Rightarrow> Inr (Ar (map Ar (transpose rows))))"

text \<open>Reading a tensor of rank two back as a batch of rows.\<close>

fun scalar_of :: "'a tensor \<Rightarrow> 'a option" where
  "scalar_of (Sc x) = Some x"
| "scalar_of (Ar xs) = None"

fun to_vec :: "'a tensor \<Rightarrow> 'a list option" where
  "to_vec (Sc x) = None"
| "to_vec (Ar xs) = those (map scalar_of xs)"

fun to_mat :: "'a tensor \<Rightarrow> 'a list list option" where
  "to_mat (Sc x) = None"
| "to_mat (Ar xs) = those (map to_vec xs)"

subsection \<open>Operations on tensors of fixed rank\<close>

text \<open>\<^verbatim>\<open>x[0]\<close> on the leading axis.\<close>

fun index0 :: "'a list \<Rightarrow> error + 'a" where
  "index0 [] = Inl (IndexError TensorAxis)"
| "index0 (x # xs) = Inr x"

text \<open>\<^verbatim>\<open>x.size(1)\<close> of a tensor (1, batch, ...).\<close>

fun size1 :: "'a list list \<Rightarrow> nat" where
  "size1 [] = 0"
| "size1 (m # ms) = length m"

text \<open>\<^verbatim>\<open>x[:, k]\<close>: frame \<open>k\<close> of every sample of the batch.\<close>

definition select_frame :: "nat \<Rightarrow> 'a list list \<Rightarrow> error + 'a list" where
  "select_frame k xs =
     (if list_all (\<lambda>r. k < length r) xs then Inr (map (\<lambda>r. r ! k) xs)
      else Inl (IndexError FrameAxis))"

text \<open>\<^verbatim>\<open>x.view(x.size(0), -1)\<close>: the axes after the first are flattened.\<close>

definition view_flat :: "'a list list list \<Rightarrow> 'a list list" where
  "view_flat xs = map concat xs"

text \<open>Two tensors of rank two of one shape, combined entry by entry. Torch raises
  RuntimeError for shapes it cannot broadcast; broadcasting itself is not modelled,
  every other pair of shapes is an error here.\<close>

definition zip_mat :: "(real \<Rightarrow> real \<Rightarrow> real) \<Rightarrow> mat \<Rightarrow> mat \<Rightarrow> error + mat" where
  "zip_mat f a b =
     (if map length a = map length b then Inr (map2 (map2 f) a b) else Inl RuntimeError)"

text \<open>\<^verbatim>\<open>x + y\<close> for \<open>x\<close> of shape (1, batch, width) and \<open>y\<close> of shape (batch, width).\<close>

definition badd :: "cube \<Rightarrow> mat \<Rightarrow> error + cube" where
  "badd x y =
     (if list_all (\<lambda>m. map length m = map length y) x
      then Inr (map (\<lambda>m. map2 (map2 (+)) m y) x) else Inl RuntimeError)"

text \<open>\<^verbatim>\<open>torch.cat(ms, -1)\<close> on tensors of rank two: the rows are joined sample by
  sample, and the tensors must have the same number of rows.\<close>

fun cat_last :: "mat list \<Rightarrow> error + mat" where
  "cat_last [] = Inl RuntimeError"
| "cat_last [m] = Inr m"
| "cat_last (m # ms) =
     bind_res (cat_last ms)
       (\<lambda>r. if length m = length r then Inr (map2 (@) m r) else Inl RuntimeError)"

subsection \<open>Quaternions\<close>

text \<open>\<^verbatim>\<open>x.view(x.size(0), x.size(1), -1, 4)\<close>: every row is cut into quaternions; a row
  whose length is not a multiple of four cannot be viewed so.\<close>

definition chunks4 :: "'a list \<Rightarrow> 'a list list" where
  "chunks4 xs = map (\<lambda>i. take 4 (drop (4 * i) xs)) [0..<length xs div 4]"

definition view_quat :: "cube \<Rightarrow> error + real list list list list" where
  "view_quat x =
     (if list_all (list_all (\<lambda>r. length r mod 4 = 0)) x
      then Inr (map (map chunks4) x) else Inl RuntimeError)"

section \<open>Command line of the inference script\<close>

text \<open>
  A Python \<^verbatim>\<open>str\<close> is a sequence of Unicode code points; \<open>lit\<close> embeds the ASCII literals
  of the script. \<^verbatim>\<open>str.upper()\<close> is a builtin of the interpreter and not code of the
  script: it is the parameter \<open>upper\<close>, any function from text to text.
\<close>

type_synonym str = "nat list"

definition lit :: "string \<Rightarrow> str" where
  "lit s = map of_char s"

text \<open>The arguments as argparse leaves them: \<open>None\<close> for an option that is not given.\<close>

record args =
  Dataset :: "str option"
  Filetype :: "str option"

text \<open>The block under \<^verbatim>\<open>if __name__ == '__main__'\<close> up to the call \<^verbatim>\<open>test(d, f)\<close>: the
  result is \<open>d\<close>, \<open>f\<close> and the lines printed. \<^verbatim>\<open>str(v)\<close> of a \<^verbatim>\<open>str\<close> is \<open>v\<close>. The
  inference loop further down only compares its file type with ASCII literals and
  takes it as a string of ASCII characters.\<close>

definition select_dataset :: "(str \<Rightarrow> str) \<Rightarrow> str option \<Rightarrow> str \<times> str list" where
  "select_dataset upper a =
     (case a of
        None \<Rightarrow> (lit ''DFKI'', [])
      | Some v \<Rightarrow>
          if upper v = lit ''DFKI'' \<or> upper v = lit ''LAFAN'' then (upper v, [])
          else (lit ''DFKI'',
                [lit ''Currently: Only LAFAN and DFKI Datasets are supported. Using Default: DFKI'']))"

definition select_filetype :: "(str \<Rightarrow> str) \<Rightarrow> str option \<Rightarrow> str \<times> str list" where
  "select_filetype upper a =
     (case a of
        None \<Rightarrow> (lit ''ONNX'', [])
      | Some v \<Rightarrow>
          if upper v = lit ''ONNX'' \<or> upper v = lit ''PKL'' then (upper v, [])
          else (lit ''ONNX'', [lit ''Filetype not supported. Using default ONNX'']))"

definition main_args :: "(str \<Rightarrow> str) \<Rightarrow> args \<Rightarrow> str \<times> str \<times> str list" where
  "main_args upper a =
     (let (d, out_d) = select_dataset upper (Dataset a);
          (f, out_f) = select_filetype upper (Filetype a)
      in (d, f, out_d @ out_f @ [lit ''Using dataset  '' @ d @ lit ''  and filetype  '' @ f]))"

section \<open>Data, external modules and effects\<close>

text \<open>
  One batch of the data loader, \<^verbatim>\<open>sampled_batch\<close>. Every field has the batch axis
  first; the fields read frame by frame have the time axis second. A pose is the
  global position of every joint. The data loader gives all fields of a batch the
  same batch size.
\<close>

type_synonym pose = "real list list"

record sampled_batch =
  local_q :: "real list list list list"
  root_v :: "real list list list"
  contact :: "real list list list"
  root_p_offset :: "real list list"
  local_q_offset :: "real list list list"
  q_target :: "real list list list"
  root_p :: "real list list list"
  global_pos :: "pose list list"
  global_rot :: "real list list list list list"

text \<open>\<^verbatim>\<open>current_batch_size = len(sampled_batch['global_pos'])\<close>\<close>

definition current_batch_size :: "sampled_batch \<Rightarrow> nat" where
  "current_batch_size b = length (global_pos b)"

text \<open>
  The modules of the package \<^verbatim>\<open>rmi\<close> are not part of the two scripts: the encoders,
  the positional encoding, the recurrent core with its hidden state \<open>'h\<close>, the decoder,
  the noise schedule and the forward kinematics of the skeleton are parameters, each a
  total function. \<^verbatim>\<open>lstm(h_in)\<close> reads and writes the hidden state of the module;
  \<^verbatim>\<open>lstm.init_hidden(n)\<close> overwrites it.

  The floating-point arithmetic of the tensor library that normalises the quaternions
  is a parameter too: \<open>torch_norm\<close> is what \<^verbatim>\<open>torch.norm(q, dim=-1, keepdim=True)\<close>
  computes for one quaternion, and \<open>torch_div x n\<close> is the entry \<^verbatim>\<open>x / n\<close> of the quotient.
  Nothing is assumed about their rounding, underflow or overflow. The norm of finite
  entries is never NaN, so \<open>None\<close> as a norm is the infinity of an overflow.
\<close>

record 'h modules =
  state_encoder :: "mat \<Rightarrow> mat"
  offset_encoder :: "mat \<Rightarrow> mat"
  target_encoder :: "mat \<Rightarrow> mat"
  pe :: "mat \<Rightarrow> nat \<Rightarrow> mat"
  init_hidden :: "nat \<Rightarrow> 'h"
  lstm :: "'h \<Rightarrow> cube \<Rightarrow> 'h \<times> cube"
  decoder :: "cube \<Rightarrow> cube \<times> cube"
  noise_injector :: "nat \<Rightarrow> nat \<Rightarrow> real"
  forward_kinematics_with_rotation ::
    "float tensor \<Rightarrow> real tensor \<Rightarrow> pose list list \<times> real list list list list list"
  torch_norm :: "vec \<Rightarrow> float"
  torch_div :: "real \<Rightarrow> float \<Rightarrow> float"

text \<open>The same networks loaded as ONNX inference sessions: \<^verbatim>\<open>session.run\<close> computes
  the outputs of the exported graph from its inputs and keeps nothing between two
  calls.\<close>

record sessions =
  state_encoder_run :: "mat \<Rightarrow> mat"
  offset_encoder_run :: "mat \<Rightarrow> mat"
  target_encoder_run :: "mat \<Rightarrow> mat"
  lstm_run :: "cube \<Rightarrow> cube"
  decoder_run :: "cube \<Rightarrow> cube \<times> cube"

text \<open>The calls whose order or number a reader of the scripts can observe.\<close>

datatype network_name =
    StateEncoder | OffsetEncoder | TargetEncoder | LSTMNetwork | Decoder
  | ShortDiscriminator | LongDiscriminator

datatype optimizer_name = GeneratorOptimizer | DiscriminatorOptimizer

datatype loss_name = TotalDLoss | LossTotal

datatype plot_prefix = PredPlot | GtPlot

datatype event =
    InitHidden nat                                \<comment> \<open>\<^verbatim>\<open>lstm.init_hidden(n)\<close>\<close>
  | LstmForward                                   \<comment> \<open>\<^verbatim>\<open>lstm(h_in)\<close>\<close>
  | LstmRun                                       \<comment> \<open>\<^verbatim>\<open>lstm.run(None, ...)\<close>\<close>
  | ForwardKinematics "float tensor" "real tensor"
  | ZeroGrad optimizer_name
  | Backward loss_name
  | ClipGradNorm network_name real
  | OptimizerStep optimizer_name
  | WriteStartJson "real list list" "real list"
  | WriteTargetJson "real list list" "real list"
  | WriteFrameJson nat "float tensor" "real tensor"
  | PlotPose plot_prefix nat pose pose pose      \<comment> \<open>prefix, t, start, in-between, target\<close>
  | SaveGif nat

text \<open>The configuration values and dataset attributes the two loops read.\<close>

record config =
  training_frames :: nat       \<comment> \<open>\<^verbatim>\<open>config['model']['training_frames']\<close>\<close>
  test_frames :: nat           \<comment> \<open>\<^verbatim>\<open>config['test']['test_frames']\<close>\<close>
  batch_size :: nat            \<comment> \<open>\<^verbatim>\<open>config['model']['batch_size']\<close>\<close>
  inference_batch_index :: nat \<comment> \<open>\<^verbatim>\<open>config['test']['inference_batch_index']\<close>\<close>
  local_q_dim :: nat           \<comment> \<open>\<^verbatim>\<open>lafan_dataset.local_q_dim\<close>, the width \<^verbatim>\<open>target_in\<close>\<close>

text \<open>The variables a timestep leaves for the next one.\<close>

record preds =
  root_pred :: "real tensor"
  root_v_pred :: cube
  local_q_pred :: cube
  contact_pred :: "real tensor"

section \<open>The steps both loops share\<close>

text \<open>From the shape assertion to the three network inputs (train.py 181-190,
  test.py 195-215). The result also holds \<open>root_p_t\<close> as a tensor of rank two.\<close>

definition build_inputs ::
  "sampled_batch \<Rightarrow> real tensor \<Rightarrow> mat \<Rightarrow> mat \<Rightarrow> real tensor \<Rightarrow>
   error + (mat \<times> mat \<times> mat \<times> mat)" where
  "build_inputs b root_p_t root_v_t local_q_t contact_t =
     (if shape (of_mat (root_p_offset b)) \<noteq> shape root_p_t
      then Inl (AssertionError RootShape)
      else
        bind_res (of_option RuntimeError (to_mat contact_t)) (\<lambda>contact_m.
        bind_res (cat_last [local_q_t, root_v_t, contact_m]) (\<lambda>state_input.
        bind_res (of_option RuntimeError (to_mat root_p_t)) (\<lambda>root_p_m.
        bind_res (zip_mat (-) (root_p_offset b) root_p_m) (\<lambda>root_p_offset_t.
        bind_res (zip_mat (-) (view_flat (local_q_offset b)) local_q_t) (\<lambda>local_q_offset_t.
        bind_res (cat_last [root_p_offset_t, local_q_offset_t]) (\<lambda>offset_input.
          Inr (state_input, offset_input, view_flat (q_target b), root_p_m))))))))"

text \<open>\<^verbatim>\<open>q / torch.norm(q, dim=-1, keepdim=True)\<close> for one quaternion: every entry is
  divided by the norm computed for the quaternion. No line of the scripts inspects the
  norm before the division.\<close>

definition quat_normalize :: "'h modules \<Rightarrow> vec \<Rightarrow> float list" where
  "quat_normalize m q = map (\<lambda>x. torch_div m x (torch_norm m q)) q"

text \<open>From the decoder output to the predictions (train.py 213-220, test.py
  260-267): the residual is added to the inputs of the timestep, and the quaternions
  are divided by their norm.\<close>

definition decode_residual ::
  "'h modules \<Rightarrow> nat \<Rightarrow> cube \<Rightarrow> mat \<Rightarrow> mat \<Rightarrow>
   error + (cube \<times> float list list list list \<times> cube \<times> cube)" where
  "decode_residual m target_in h_pred local_q_t root_p_m =
     (let local_q_v_pred = map (map (take target_in)) h_pred in
      bind_res (badd local_q_v_pred local_q_t) (\<lambda>local_q_pred.
      bind_res (view_quat local_q_pred) (\<lambda>local_q_view.
        let local_q_pred_n = map (map (map (quat_normalize m))) local_q_view;
            root_v_pred = map (map (drop target_in)) h_pred
        in bind_res (badd root_v_pred root_p_m) (\<lambda>root_pred.
             Inr (local_q_pred, local_q_pred_n, root_v_pred, root_pred)))))"

section \<open>The training loop\<close>

text \<open>What both loops keep from one timestep to the next: the hidden state of the
  recurrent core, the predictions of the last timestep (none before the first one) and
  the calls made so far.\<close>

record 'h rollout_state =
  hidden :: 'h
  carried :: "preds option"
  events :: "event list"

record 'h train_state = "'h rollout_state" +
  root_pred_list :: "real tensor list"
  local_q_pred_list :: "float tensor list"
  contact_pred_list :: "real tensor list"
  pos_next_list :: "pose list list"
  global_q_next_list :: "real list list list list list"
  local_q_next_list :: "mat list"
  root_p_next_list :: "mat list"
  contact_next_list :: "mat list"

text \<open>train.py 169-179: the inputs of timestep \<open>t\<close>.\<close>

definition train_inputs ::
  "sampled_batch \<Rightarrow> nat \<Rightarrow> preds option \<Rightarrow> error + (real tensor \<times> mat \<times> mat \<times> real tensor)" where
  "train_inputs b t c =
     (if t = 0 then
        bind_res (select_frame (t + 10) (root_p b)) (\<lambda>root_p_t.
        bind_res (select_frame (t + 10) (root_v b)) (\<lambda>root_v_t.
        bind_res (select_frame (t + 10) (local_q b)) (\<lambda>local_q_t.
        bind_res (select_frame (t + 10) (contact b)) (\<lambda>contact_t.
          Inr (of_mat root_p_t, root_v_t, view_flat local_q_t, of_mat contact_t)))))
      else
        (case c of
           None \<Rightarrow> Inl UnboundLocalError
         | Some p \<Rightarrow>
             bind_res (index0 (root_v_pred p)) (\<lambda>root_v_t.
             bind_res (index0 (local_q_pred p)) (\<lambda>local_q_t.
               Inr (root_pred p, root_v_t, local_q_t, contact_pred p)))))"

text \<open>train.py 192-212: encoders, positional encoding, scheduled noise, recurrent
  core and decoder. The result is the new hidden state, \<open>h_pred\<close> and \<open>contact_pred\<close>.\<close>

definition train_networks ::
  "'h modules \<Rightarrow> nat \<Rightarrow> mat \<Rightarrow> nat \<Rightarrow> 'h \<Rightarrow> mat \<times> mat \<times> mat \<Rightarrow> error + ('h \<times> cube \<times> cube)" where
  "train_networks m frames target_noise t h inp =
     (case inp of (state_input, offset_input, target_input) \<Rightarrow>
        let tta = frames - t;
            h_state = pe m (state_encoder m state_input) tta;
            h_offset = pe m (offset_encoder m offset_input) tta;
            h_target = pe m (target_encoder m target_input) tta
        in bind_res (cat_last [h_offset, h_target]) (\<lambda>offset_target.
             let noise_multiplier = noise_injector m t frames in
             bind_res (zip_mat (+) offset_target (map (map ((*) noise_multiplier)) target_noise))
               (\<lambda>prtbd_offset_target.
             bind_res (cat_last [h_state, prtbd_offset_target]) (\<lambda>h_in.
               case lstm m h [h_in] of (h', h_out) \<Rightarrow>
               case decoder m h_out of (h_pred, contact_out) \<Rightarrow>
                 Inr (h', h_pred, contact_out)))))"

text \<open>train.py 223-230 and 236-239: a batch of one sample keeps its batch axis.\<close>

definition keep_batch :: "('b list \<Rightarrow> 'a tensor) \<Rightarrow> 'b list list \<Rightarrow> error + 'a tensor" where
  "keep_batch conv x =
     (if size1 x = 1 then bind_res (index0 x) (\<lambda>m. Inr (conv m))
      else Inr (squeeze (Ar (map conv x))))"

text \<open>One pass through the body of \<^verbatim>\<open>for t in range(training_frames)\<close>.\<close>

definition train_step ::
  "'h modules \<Rightarrow> config \<Rightarrow> sampled_batch \<Rightarrow> mat \<Rightarrow> nat \<Rightarrow> 'h train_state \<Rightarrow>
   error + 'h train_state" where
  "train_step m cfg b target_noise t s =
     bind_res (train_inputs b t (carried s)) (\<lambda>(root_p_t, root_v_t, local_q_t, contact_t).
     bind_res (build_inputs b root_p_t root_v_t local_q_t contact_t)
       (\<lambda>(state_input, offset_input, target_input, root_p_m).
     bind_res (train_networks m (training_frames cfg) target_noise t (hidden s)
                 (state_input, offset_input, target_input))
       (\<lambda>(h', h_pred, contact_pred0).
     bind_res (decode_residual m (local_q_dim cfg) h_pred local_q_t root_p_m)
       (\<lambda>(local_q_pred1, local_q_pred_n, root_v_pred1, root_pred0).
     bind_res (keep_batch of_mat root_pred0) (\<lambda>root_pred1.
     bind_res (keep_batch of_cube local_q_pred_n) (\<lambda>local_q_pred_1.
     bind_res (keep_batch of_mat contact_pred0) (\<lambda>contact_pred1.
     bind_res (select_frame (t + 1 + 10) (global_pos b)) (\<lambda>pos_next.
     bind_res (select_frame (t + 1 + 10) (global_rot b)) (\<lambda>global_q_next.
     bind_res (select_frame (t + 1 + 10) (local_q b)) (\<lambda>local_q_next.
     bind_res (select_frame (t + 1 + 10) (root_p b)) (\<lambda>root_p_next.
     bind_res (select_frame (t + 1 + 10) (contact b)) (\<lambda>contact_next.
       Inr (s\<lparr>hidden := h',
              carried := Some \<lparr>root_pred = root_pred1, root_v_pred = root_v_pred1,
                               local_q_pred = local_q_pred1, contact_pred = contact_pred1\<rparr>,
              root_pred_list := root_pred_list s @ [root_pred1],
              local_q_pred_list := local_q_pred_list s @ [local_q_pred_1],
              contact_pred_list := contact_pred_list s @ [contact_pred1],
              pos_next_list := pos_next_list s @ [pos_next],
              global_q_next_list := global_q_next_list s @ [global_q_next],
              local_q_next_list := local_q_next_list s @ [view_flat local_q_next],
              root_p_next_list := root_p_next_list s @ [root_p_next],
              contact_next_list := contact_next_list s @ [contact_next],
              events := events s @ [LstmForward]\<rparr>)))))))))))))"

definition train_rollout ::
  "'h modules \<Rightarrow> config \<Rightarrow> sampled_batch \<Rightarrow> mat \<Rightarrow> 'h train_state \<Rightarrow> error + 'h train_state" where
  "train_rollout m cfg b target_noise s =
     for_range (train_step m cfg b target_noise) [0..<training_frames cfg] s"

text \<open>train.py 280-326, the calls of the two update steps in their order. The losses
  are numbers computed from the tensors of the batch; only the calls are kept.\<close>

definition update_events :: "event list" where
  "update_events =
     [ZeroGrad DiscriminatorOptimizer,
      Backward TotalDLoss,
      OptimizerStep DiscriminatorOptimizer,
      ZeroGrad GeneratorOptimizer,
      Backward LossTotal,
      ClipGradNorm StateEncoder 1,
      ClipGradNorm OffsetEncoder 1,
      ClipGradNorm TargetEncoder 1,
      ClipGradNorm LSTMNetwork 1,
      ClipGradNorm Decoder 1,
      ClipGradNorm ShortDiscriminator 1,
      ClipGradNorm LongDiscriminator 1,
      OptimizerStep GeneratorOptimizer]"

text \<open>The parameters each optimizer was built from (train.py 103-116).\<close>

fun optimizer_params :: "optimizer_name \<Rightarrow> network_name list" where
  "optimizer_params GeneratorOptimizer =
     [StateEncoder, OffsetEncoder, TargetEncoder, LSTMNetwork, Decoder]"
| "optimizer_params DiscriminatorOptimizer = [ShortDiscriminator, LongDiscriminator]"

text \<open>\<^verbatim>\<open>torch.stack(xs, dim=1)\<close> on the lists of ground-truth frames.\<close>

definition stack_frames :: "'a list list \<Rightarrow> error + 'a list list" where
  "stack_frames xs =
     (if xs = [] \<or> \<not> all_equal (map length xs) then Inl RuntimeError
      else Inr (transpose xs))"

text \<open>The body of \<^verbatim>\<open>for sampled_batch in batch_pbar\<close> (train.py 129-327), with the
  noise \<^verbatim>\<open>torch.normal\<close> sampled for the batch. The values of the losses
  (train.py 263-277) are not computed: of the update only the order of its calls
  is kept, in \<open>update_events\<close>.\<close>

definition train_batch ::
  "'h modules \<Rightarrow> config \<Rightarrow> sampled_batch \<times> mat \<Rightarrow> 'h train_state \<Rightarrow> error + 'h train_state" where
  "train_batch m cfg bn s =
     (case bn of (b, target_noise) \<Rightarrow>
      let s0 = s\<lparr>hidden := init_hidden m (current_batch_size b),
                 root_pred_list := [], local_q_pred_list := [], contact_pred_list := [],
                 pos_next_list := [], local_q_next_list := [], root_p_next_list := [],
                 contact_next_list := [], global_q_next_list := [],
                 events := events s @ [InitHidden (current_batch_size b)]\<rparr> in
      bind_res (train_rollout m cfg b target_noise s0) (\<lambda>s1.
      bind_res (stack1 (root_pred_list s1)) (\<lambda>root_pred_stack.
      bind_res (stack1 (local_q_pred_list s1)) (\<lambda>local_q_pred_stack.
      bind_res (stack1 (contact_pred_list s1)) (\<lambda>contact_pred_stack.
      bind_res (stack_frames (pos_next_list s1)) (\<lambda>pos_next_stack.
      bind_res (stack_frames (root_p_next_list s1)) (\<lambda>root_p_next_stack.
      bind_res (stack_frames (local_q_next_list s1)) (\<lambda>local_q_next_stack.
      bind_res (stack_frames (contact_next_list s1)) (\<lambda>contact_next_stack.
      bind_res (stack_frames (global_q_next_list s1)) (\<lambda>rot_next_stack.
        Inr (s1\<lparr>events := events s1
                   @ [ForwardKinematics local_q_pred_stack root_pred_stack]
                   @ update_events\<rparr>)))))))))))"

text \<open>One epoch: \<^verbatim>\<open>for sampled_batch in batch_pbar\<close> over the batches of the loader.\<close>

fun train_epoch ::
  "'h modules \<Rightarrow> config \<Rightarrow> (sampled_batch \<times> mat) list \<Rightarrow> 'h train_state \<Rightarrow>
   error + 'h train_state" where
  "train_epoch m cfg [] s = Inr s"
| "train_epoch m cfg (bn # bns) s = bind_res (train_batch m cfg bn s) (train_epoch m cfg bns)"

section \<open>The inference loop\<close>

record 'h test_state = "'h rollout_state" +
  pose_stack :: "pose list"

text \<open>\<^verbatim>\<open>x[i, k]\<close> on ground-truth data: sample \<open>i\<close> of the batch, frame \<open>k\<close>.\<close>

definition sample_frame :: "nat \<Rightarrow> nat \<Rightarrow> 'a list list \<Rightarrow> error + 'a" where
  "sample_frame i k xs =
     (if i < length xs then
        (if k < length (xs ! i) then Inr (xs ! i ! k) else Inl (IndexError FrameAxis))
      else Inl (IndexError BatchAxis))"

text \<open>\<^verbatim>\<open>x[i][-1]\<close> on ground-truth data: the last frame of sample \<open>i\<close>.\<close>

definition sample_last :: "nat \<Rightarrow> 'a list list \<Rightarrow> error + 'a" where
  "sample_last i xs =
     (if i < length xs then
        (if xs ! i = [] then Inl (IndexError FrameAxis) else Inr (last (xs ! i)))
      else Inl (IndexError BatchAxis))"

text \<open>\<^verbatim>\<open>pos_pred[i, 0]\<close> on the output of the forward kinematics.\<close>

definition output_frame :: "nat \<Rightarrow> 'a list list \<Rightarrow> error + 'a" where
  "output_frame i xs =
     (if i < length xs then
        (case xs ! i of [] \<Rightarrow> Inl (IndexError TensorAxis) | p # ps \<Rightarrow> Inr p)
      else Inl (IndexError TensorAxis))"

text \<open>\<^verbatim>\<open>pose_stack.pop(0)\<close>: the first element and the list that is left.\<close>

fun pop0 :: "'a list \<Rightarrow> error + ('a \<times> 'a list)" where
  "pop0 [] = Inl (IndexError PoseStackPop)"
| "pop0 (x # xs) = Inr (x, xs)"

text \<open>test.py 183-193: the inputs of timestep \<open>t\<close>.\<close>

definition test_inputs ::
  "sampled_batch \<Rightarrow> nat \<Rightarrow> preds option \<Rightarrow> error + (real tensor \<times> mat \<times> mat \<times> real tensor)" where
  "test_inputs b t c =
     (if t = 0 then
        bind_res (select_frame (t + 9) (root_p b)) (\<lambda>root_p_t.
        bind_res (select_frame (t + 9) (root_v b)) (\<lambda>root_v_t.
        bind_res (select_frame (t + 9) (local_q b)) (\<lambda>local_q_t.
        bind_res (select_frame (t + 9) (contact b)) (\<lambda>contact_t.
          Inr (of_mat root_p_t, root_v_t, view_flat local_q_t, of_mat contact_t)))))
      else
        (case c of
           None \<Rightarrow> Inl UnboundLocalError
         | Some p \<Rightarrow>
             bind_res (index0 (root_v_pred p)) (\<lambda>root_v_t.
             bind_res (index0 (local_q_pred p)) (\<lambda>local_q_t.
             bind_res (tindex (contact_pred p) 0) (\<lambda>contact_t.
               Inr (root_pred p, root_v_t, local_q_t, contact_t))))))"

text \<open>test.py 218-258: encoders, positional encoding, recurrent core and decoder, each
  called as the file type says. The names \<open>state_encoder\<close>, ..., \<open>decoder\<close> hold modules
  when the file type is PKL and inference sessions otherwise (test.py 81-135), and a
  session is not callable. The result is the new hidden state, the call made on the
  recurrent core, \<open>h_pred\<close> and \<open>contact_pred\<close>.\<close>

definition test_networks ::
  "'h modules \<Rightarrow> sessions \<Rightarrow> string \<Rightarrow> nat \<Rightarrow> nat \<Rightarrow> 'h \<Rightarrow> mat \<times> mat \<times> mat \<Rightarrow>
   error + ('h \<times> event \<times> cube \<times> cube)" where
  "test_networks m ses filetype frames t h inp =
     (case inp of (state_input, offset_input, target_input) \<Rightarrow>
        bind_res
          (if filetype = ''ONNX''
           then Inr (state_encoder_run ses state_input, offset_encoder_run ses offset_input,
                     target_encoder_run ses target_input)
           else if filetype = ''PKL''
           then Inr (state_encoder m state_input, offset_encoder m offset_input,
                     target_encoder m target_input)
           else Inl TypeError)
          (\<lambda>(e_state, e_offset, e_target).
        let tta = frames - t;
            h_state = pe m e_state tta;
            h_offset = pe m e_offset tta;
            h_target = pe m e_target tta
        in bind_res (cat_last [h_offset, h_target]) (\<lambda>offset_target.
           bind_res (cat_last [h_state, offset_target]) (\<lambda>h_in.
           bind_res
             (if filetype = ''ONNX'' then Inr (h, LstmRun, lstm_run ses [h_in])
              else if filetype = ''PKL''
              then (case lstm m h [h_in] of (h', h_out) \<Rightarrow> Inr (h', LstmForward, h_out))
              else Inl TypeError)
             (\<lambda>(h', call, h_out).
           bind_res
             (if filetype = ''ONNX'' then Inr (decoder_run ses h_out)
              else if filetype = ''PKL'' then Inr (decoder m h_out)
              else Inl TypeError)
             (\<lambda>(h_pred, contact_out). Inr (h', call, h_pred, contact_out)))))))"

text \<open>test.py 290-291: the two files written at the first timestep.\<close>

definition start_target_events ::
  "config \<Rightarrow> sampled_batch \<Rightarrow> nat \<Rightarrow> pose \<Rightarrow> pose \<Rightarrow> error + event list" where
  "start_target_events cfg b t start_pose target_pose =
     (if t = 0 then
        bind_res (sample_frame (inference_batch_index cfg) 0 (local_q b)) (\<lambda>q_first.
        bind_res (index0 start_pose) (\<lambda>start_root.
        bind_res (sample_last (inference_batch_index cfg) (local_q b)) (\<lambda>q_last.
        bind_res (index0 target_pose) (\<lambda>target_root.
          Inr [WriteStartJson q_first start_root, WriteTargetJson q_last target_root]))))
      else Inr [])"

text \<open>One pass through the body of \<^verbatim>\<open>for t in range(training_frames)\<close> of test.py,
  where \<^verbatim>\<open>training_frames\<close> is the configured number of test frames.\<close>

definition test_step ::
  "'h modules \<Rightarrow> sessions \<Rightarrow> config \<Rightarrow> string \<Rightarrow> sampled_batch \<Rightarrow> nat \<Rightarrow> 'h test_state \<Rightarrow>
   error + 'h test_state" where
  "test_step m ses cfg filetype b t s =
     bind_res (test_inputs b t (carried s)) (\<lambda>(root_p_t, root_v_t, local_q_t, contact_t).
     bind_res (build_inputs b root_p_t root_v_t local_q_t contact_t)
       (\<lambda>(state_input, offset_input, target_input, root_p_m).
     bind_res (test_networks m ses filetype (test_frames cfg) t (hidden s)
                 (state_input, offset_input, target_input))
       (\<lambda>(h', call, h_pred, contact_out).
     bind_res (decode_residual m (local_q_dim cfg) h_pred local_q_t root_p_m)
       (\<lambda>(local_q_pred1, local_q_pred_n, root_v_pred1, root_pred0).
     let root_pred1 = squeeze (of_cube root_pred0);
         local_q_pred_1 = squeeze (of_quats local_q_pred_n) in
     bind_res (unsqueeze1 local_q_pred_1) (\<lambda>fk_q.
     bind_res (unsqueeze1 root_pred1) (\<lambda>fk_root.
     let pos_pred = fst (forward_kinematics_with_rotation m fk_q fk_root) in
     bind_res (tindex root_pred1 (inference_batch_index cfg)) (\<lambda>root_pred_t.
     bind_res (tindex local_q_pred_1 (inference_batch_index cfg)) (\<lambda>local_q_pred_t.
     bind_res (sample_frame (inference_batch_index cfg) (0 + 9) (global_pos b)) (\<lambda>start_pose.
     bind_res (pop0 (pose_stack s)) (\<lambda>(in_between_pose, rest).
     if rest \<noteq> [] then Inl (AssertionError PoseStackEmpty) else
     bind_res (output_frame (inference_batch_index cfg) pos_pred) (\<lambda>pushed.
     bind_res (sample_frame (inference_batch_index cfg) (t + 9) (global_pos b))
       (\<lambda>in_between_true.
     bind_res (sample_frame (inference_batch_index cfg) (test_frames cfg - 1 + 9) (global_pos b))
       (\<lambda>target_pose.
     bind_res (start_target_events cfg b t start_pose target_pose) (\<lambda>first_files.
       Inr (s\<lparr>hidden := h',
              carried := Some \<lparr>root_pred = root_pred1, root_v_pred = root_v_pred1,
                               local_q_pred = local_q_pred1,
                               contact_pred = of_cube contact_out\<rparr>,
              events := events s
                @ [call, ForwardKinematics fk_q fk_root]
                @ first_files
                @ [WriteFrameJson t local_q_pred_t root_pred_t,
                   PlotPose PredPlot t start_pose in_between_pose target_pose,
                   PlotPose GtPlot t start_pose in_between_true target_pose],
              pose_stack := rest @ [pushed]\<rparr>)))))))))))))))"

definition test_rollout ::
  "'h modules \<Rightarrow> sessions \<Rightarrow> config \<Rightarrow> string \<Rightarrow> sampled_batch \<Rightarrow> 'h test_state \<Rightarrow>
   error + 'h test_state" where
  "test_rollout m ses cfg filetype b s =
     for_range (test_step m ses cfg filetype b) [0..<test_frames cfg] s"

text \<open>The body of \<^verbatim>\<open>for i_batch, sampled_batch in enumerate(...)\<close> after the check of
  the batch size (test.py 157-316).\<close>

definition test_batch ::
  "'h modules \<Rightarrow> sessions \<Rightarrow> config \<Rightarrow> string \<Rightarrow> nat \<Rightarrow> sampled_batch \<Rightarrow> 'h test_state \<Rightarrow>
   error + 'h test_state" where
  "test_batch m ses cfg filetype i_batch b s =
     bind_res (sample_frame (inference_batch_index cfg) (0 + 9) (global_pos b)) (\<lambda>first_pose.
     let s0 = s\<lparr>pose_stack := [first_pose]\<rparr>;
         s1 = (if filetype = ''PKL''
               then s0\<lparr>hidden := init_hidden m (current_batch_size b),
                       events := events s0 @ [InitHidden (current_batch_size b)]\<rparr>
               else s0)
     in bind_res (test_rollout m ses cfg filetype b s1) (\<lambda>s2.
          Inr (s2\<lparr>events := events s2 @ [SaveGif i_batch]\<rparr>)))"

text \<open>test.py 148-155: the loop over the batches ends at the first batch whose size is
  not the configured one.\<close>

fun test_batches ::
  "'h modules \<Rightarrow> sessions \<Rightarrow> config \<Rightarrow> string \<Rightarrow> nat \<Rightarrow> sampled_batch list \<Rightarrow> 'h test_state \<Rightarrow>
   error + 'h test_state" where
  "test_batches m ses cfg filetype i [] s = Inr s"
| "test_batches m ses cfg filetype i (b # bs) s =
     (if batch_size cfg \<noteq> current_batch_size b then Inr s
      else bind_res (test_batch m ses cfg filetype i b s)
             (test_batches m ses cfg filetype (Suc i) bs))"

section \<open>Notions used to state the properties\<close>

text \<open>
  The pairs (optimizer, network) for which an optimizer step runs while the gradients
  of one of its networks have not been clipped with cap 1.0 since the last backward
  pass. The first argument lists the networks clipped since that pass.
\<close>

fun unclipped :: "network_name list \<Rightarrow> event list \<Rightarrow> (optimizer_name \<times> network_name) list" where
  "unclipped cl [] = []"
| "unclipped cl (Backward l # es) = unclipped [] es"
| "unclipped cl (ClipGradNorm n c # es) = unclipped (if c = 1 then n # cl else cl) es"
| "unclipped cl (OptimizerStep opt # es) =
     map (Pair opt) (filter (\<lambda>n. n \<notin> set cl) (optimizer_params opt)) @ unclipped cl es"
| "unclipped cl (e # es) = unclipped cl es"

text \<open>Every per-frame field of the batch holds at least \<open>n\<close> frames for every sample.\<close>

definition frames_at_least :: "nat \<Rightarrow> sampled_batch \<Rightarrow> bool" where
  "frames_at_least n b =
     (list_all (\<lambda>r. n \<le> length r) (local_q b) \<and>
      list_all (\<lambda>r. n \<le> length r) (root_v b) \<and>
      list_all (\<lambda>r. n \<le> length r) (contact b) \<and>
      list_all (\<lambda>r. n \<le> length r) (root_p b) \<and>
      list_all (\<lambda>r. n \<le> length r) (global_pos b) \<and>
      list_all (\<lambda>r. n \<le> length r) (global_rot b))"

text \<open>The in-between poses drawn on the prediction plots, in the order of the calls.\<close>

fun in_between_plots :: "event list \<Rightarrow> pose list" where
  "in_between_plots [] = []"
| "in_between_plots (PlotPose PredPlot t a p c # es) = p # in_between_plots es"
| "in_between_plots (e # es) = in_between_plots es"

text \<open>The arguments of the calls of the forward kinematics, in the order of the calls.\<close>

fun fk_calls :: "event list \<Rightarrow> (float tensor \<times> real tensor) list" where
  "fk_calls [] = []"
| "fk_calls (ForwardKinematics q r # es) = (q, r) # fk_calls es"
| "fk_calls (e # es) = fk_calls es"

text \<open>The pose of sample \<open>i\<close> that a call of the forward kinematics returns for its first
  frame, \<^verbatim>\<open>pos_pred[i, 0]\<close>.\<close>

definition predicted_pose ::
  "'h modules \<Rightarrow> nat \<Rightarrow> float tensor \<times> real tensor \<Rightarrow> pose list" where
  "predicted_pose m i c =
     (case output_frame i (fst (forward_kinematics_with_rotation m (fst c) (snd c))) of
        Inl e \<Rightarrow> [] | Inr p \<Rightarrow> [p])"

text \<open>The calls on the recurrent core.\<close>

fun core_calls :: "event list \<Rightarrow> event list" where
  "core_calls [] = []"
| "core_calls (InitHidden n # es) = InitHidden n # core_calls es"
| "core_calls (LstmForward # es) = LstmForward # core_calls es"
| "core_calls (LstmRun # es) = LstmRun # core_calls es"
| "core_calls (e # es) = core_calls es"

text \<open>The state of the pose buffer after \<open>k\<close> timesteps of a window that started with
  the pose \<open>first\<close> in the buffer and the calls \<open>old\<close> made: the plots so far show the
  first pose and then the predictions but the last, which is the one in the buffer.\<close>

definition lagging ::
  "'h modules \<Rightarrow> nat \<Rightarrow> pose \<Rightarrow> event list \<Rightarrow> nat \<Rightarrow> 'h test_state \<Rightarrow> bool" where
  "lagging m i first old k u =
     (\<exists>new. events u = old @ new \<and>
        length (concat (map (predicted_pose m i) (fk_calls new))) = k \<and>
        in_between_plots new = take k (first # concat (map (predicted_pose m i) (fk_calls new))) \<and>
        pose_stack u = [last (first # concat (map (predicted_pose m i) (fk_calls new)))])"

text \<open>The L2 norm of a quaternion as a real number, the value that \<^verbatim>\<open>torch.norm\<close>
  approximates.\<close>

definition l2_norm :: "real list \<Rightarrow> real" where
  "l2_norm q = sqrt (sum_list (map (\<lambda>x. x * x) q))"

text \<open>
  The arithmetic is accurate to the relative tolerance \<open>e\<close> on the quaternion \<open>q\<close>: the
  quaternion is not all zeros, the norm computed for it is finite and within \<open>e\<close> of
  its norm, and every quotient by the computed norm is finite and within \<open>e\<close> of the
  quotient of the real numbers. Floating-point arithmetic is so accurate, for a
  tolerance of a few units in the last place, as long as no intermediate result
  underflows or overflows; it is not where the squares of the entries underflow to
  zero or overflow to infinity.
\<close>

definition accurate :: "'h modules \<Rightarrow> real \<Rightarrow> real list \<Rightarrow> bool" where
  "accurate m e q =
     (l2_norm q \<noteq> 0 \<and>
      (case torch_norm m q of
         None \<Rightarrow> False
       | Some n \<Rightarrow>
           \<bar>n - l2_norm q\<bar> \<le> e * l2_norm q \<and>
           list_all
             (\<lambda>x. case torch_div m x (Some n) of
                    None \<Rightarrow> False
                  | Some y \<Rightarrow> \<bar>y - x / n\<bar> \<le> e * \<bar>x / n\<bar>) q))"

text \<open>Every entry is a finite number and the L2 norm of the entries is 1 within the
  tolerance that two roundings of relative size \<open>e\<close> leave.\<close>

definition unit_within :: "real \<Rightarrow> float list \<Rightarrow> bool" where
  "unit_within e ys =
     (case those ys of
        None \<Rightarrow> False
      | Some v \<Rightarrow> (1 - e) / (1 + e) \<le> l2_norm v \<and> l2_norm v \<le> (1 + e) / (1 - e))"

text \<open>The quaternions of a tensor (1, batch, 4 * joints), in their order.\<close>

definition quats_of :: "cube \<Rightarrow> real list list" where
  "quats_of c = concat (map (\<lambda>m. concat (map chunks4 m)) c)"

text \<open>What \<^verbatim>\<open>x[0]\<close> for a batch of one, and \<^verbatim>\<open>x.squeeze()\<close> otherwise, keep of the
  leading axis of \<open>x\<close>.\<close>

definition kept :: "'a list list list \<Rightarrow> 'a list list list" where
  "kept x = (if size1 x = 1 then take 1 x else x)"


text \<open>A tensor whose second axis, the time axis, has size one: every sample holds
  exactly one frame.\<close>

fun one_frame :: "'a tensor \<Rightarrow> bool" where
  "one_frame (Ar [x]) = True"
| "one_frame t = False"

fun single_frame :: "'a tensor \<Rightarrow> bool" where
  "single_frame (Sc x) = False"
| "single_frame (Ar xs) = list_all one_frame xs"

text \<open>Every batch of a list run through the body of the inference loop, in order and
  without the check of the batch size.\<close>

fun test_all ::
  "'h modules \<Rightarrow> sessions \<Rightarrow> config \<Rightarrow> string \<Rightarrow> nat \<Rightarrow> sampled_batch list \<Rightarrow> 'h test_state \<Rightarrow>
   error + 'h test_state" where
  "test_all m ses cfg filetype i [] s = Inr s"
| "test_all m ses cfg filetype i (b # bs) s =
     bind_res (test_batch m ses cfg filetype i b s) (test_all m ses cfg filetype (Suc i) bs)"

text \<open>Text of ASCII characters only, and what \<^verbatim>\<open>str.upper()\<close> returns for it: the letters
  a to z are replaced by A to Z and every other ASCII character is kept.\<close>

definition is_ascii :: "str \<Rightarrow> bool" where
  "is_ascii s = list_all (\<lambda>c. c < 128) s"

definition ascii_upper :: "str \<Rightarrow> str" where
  "ascii_upper s = map (\<lambda>c. if 97 \<le> c \<and> c \<le> 122 then c - 32 else c) s"

definition upper_on_ascii :: "(str \<Rightarrow> str) \<Rightarrow> bool" where
  "upper_on_ascii upper = (\<forall>s. is_ascii s \<longrightarrow> upper s = ascii_upper s)"

section \<open>A small configuration for concrete runs\<close>

text \<open>
  Two joints, a root position of three coordinates, four contact flags; the first
  coordinate of the root position and of the global positions of frame \<open>k\<close> is \<open>k\<close>. The networks
  pass their input on, the recurrent core counts its calls in its hidden state, and
  the decoder emits a residual of zeros with the time axis of length one.
\<close>

text \<open>An instance of \<^verbatim>\<open>str.upper()\<close> for the concrete command lines below, which hold
  ASCII characters and the dotless i (U+0131, whose upper case is the ASCII letter I)
  and no other character.\<close>

definition example_upper :: "str \<Rightarrow> str" where
  "example_upper s = ascii_upper (map (\<lambda>c. if c = 305 then 73 else c) s)"

text \<open>An arithmetic without rounding for the concrete runs, with the special cases of
  floating-point division: a quotient by zero is not a finite number, and a finite
  number divided by an infinity is zero.\<close>

definition exact_norm :: "real list \<Rightarrow> float" where
  "exact_norm q = Some (l2_norm q)"

definition exact_div :: "real \<Rightarrow> float \<Rightarrow> float" where
  "exact_div x n = (case n of None \<Rightarrow> Some 0 | Some d \<Rightarrow> if d = 0 then None else Some (x / d))"

definition example_fk ::
  "float tensor \<Rightarrow> real tensor \<Rightarrow> pose list list \<times> real list list list list list" where
  "example_fk q r =
     (case r of Sc v \<Rightarrow> ([], []) | Ar xs \<Rightarrow> (map (\<lambda>x. [[leaves x]]) xs, []))"

definition example_modules :: "nat modules" where
  "example_modules =
     \<lparr>state_encoder = (\<lambda>x. x), offset_encoder = (\<lambda>x. x), target_encoder = (\<lambda>x. x),
      pe = (\<lambda>x t. x), init_hidden = (\<lambda>n. 0), lstm = (\<lambda>h x. (Suc h, x)),
      decoder =
        (\<lambda>x. ([map (\<lambda>r. replicate 11 0) (concat x)], [map (\<lambda>r. replicate 4 0) (concat x)])),
      noise_injector = (\<lambda>t n. 0), forward_kinematics_with_rotation = example_fk,
      torch_norm = exact_norm, torch_div = exact_div\<rparr>"

definition example_sessions :: sessions where
  "example_sessions =
     \<lparr>state_encoder_run = (\<lambda>x. x), offset_encoder_run = (\<lambda>x. x),
      target_encoder_run = (\<lambda>x. x), lstm_run = (\<lambda>x. x),
      decoder_run =
        (\<lambda>x. ([map (\<lambda>r. replicate 11 0) (concat x)], [map (\<lambda>r. replicate 4 0) (concat x)]))\<rparr>"

definition example_batch :: "nat \<Rightarrow> nat \<Rightarrow> sampled_batch" where
  "example_batch n frames =
     \<lparr>local_q = replicate n (replicate frames [[1, 0, 0, 0], [1, 0, 0, 0]]),
      root_v = replicate n (replicate frames [0, 0, 0]),
      contact = replicate n (replicate frames [0, 0, 0, 0]),
      root_p_offset = replicate n [5, 6, 7],
      local_q_offset = replicate n [[1, 0, 0, 0], [1, 0, 0, 0]],
      q_target = replicate n [[1, 0, 0, 0], [1, 0, 0, 0]],
      root_p = replicate n (map (\<lambda>k. [real k, 2, 3]) [0..<frames]),
      global_pos = replicate n (map (\<lambda>k. [[real k, 2, 3], [real k, 3, 3]]) [0..<frames]),
      global_rot = replicate n (replicate frames [])\<rparr>"

definition example_noise :: "nat \<Rightarrow> mat" where
  "example_noise n = replicate n (replicate 19 0)"

definition example_config :: "nat \<Rightarrow> nat \<Rightarrow> config" where
  "example_config frames n =
     \<lparr>training_frames = frames, test_frames = frames, batch_size = n,
      inference_batch_index = 0, local_q_dim = 8\<rparr>"

definition example_test_state :: "nat test_state" where
  "example_test_state = \<lparr>hidden = 7, carried = None, events = [], pose_stack = []\<rparr>"

definition example_train_state :: "nat train_state" where
  "example_train_state =
     \<lparr>hidden = 7, carried = None, events = [], root_pred_list = [], local_q_pred_list = [],
      contact_pred_list = [], pos_next_list = [], global_q_next_list = [],
      local_q_next_list = [], root_p_next_list = [], contact_next_list = []\<rparr>"

text \<open>The same networks with a decoder whose residual cancels the first quaternion of
  the example batch.\<close>

definition cancelling_modules :: "nat modules" where
  "cancelling_modules =
     example_modules\<lparr>decoder :=
       (\<lambda>x. ([map (\<lambda>r. [- 1, 0, 0, 0, 0, 0, 0, 0, 0, 0, 0]) (concat x)],
             [map (\<lambda>r. replicate 4 0) (concat x)]))\<rparr>"

text \<open>
  The same networks with an arithmetic that rounds as the format binary32 does: every operation returns the
  nearest number of 24 significant bits, ties to the even one, within the exponent
  range of the format, so that a magnitude below \<open>2 powi (- 150)\<close> is rounded to zero
  and one from \<open>2 ^ 128\<close> on is an infinity. The squares are summed from left to right.
\<close>

definition rne :: "real \<Rightarrow> int" where
  "rne x =
     (let f = \<lfloor>x\<rfloor>; d = x - of_int f
      in if d < 1 / 2 then f else if 1 / 2 < d then f + 1 else if even f then f else f + 1)"

definition binary32 :: "real \<Rightarrow> float" where
  "binary32 x =
     (if x = 0 then Some 0
      else
        let k = max \<lfloor>log 2 \<bar>x\<bar>\<rfloor> (- 126);
            r = of_int (rne (x / 2 powi (k - 23))) * 2 powi (k - 23)
        in if 2 ^ 128 \<le> \<bar>r\<bar> then None else Some r)"

definition binary32_add :: "float \<Rightarrow> float \<Rightarrow> float" where
  "binary32_add a b =
     (case a of None \<Rightarrow> None
      | Some x \<Rightarrow> (case b of None \<Rightarrow> None | Some y \<Rightarrow> binary32 (x + y)))"

definition binary32_norm :: "real list \<Rightarrow> float" where
  "binary32_norm q =
     (case foldl binary32_add (Some 0) (map (\<lambda>x. binary32 (x * x)) q) of
        None \<Rightarrow> None
      | Some s \<Rightarrow> binary32 (sqrt s))"

definition binary32_div :: "real \<Rightarrow> float \<Rightarrow> float" where
  "binary32_div x n =
     (case n of None \<Rightarrow> Some 0 | Some d \<Rightarrow> if d = 0 then None else binary32 (x / d))"

definition binary32_modules :: "nat modules" where
  "binary32_modules = example_modules\<lparr>torch_norm := binary32_norm, torch_div := binary32_div\<rparr>"

section \<open>Basic facts\<close>

lemma bind_res_Inr [simp]: "bind_res (Inr x) f = f x"
  by (simp add: bind_res_def)

lemma bind_res_Inl [simp]: "bind_res (Inl e) f = Inl e"
  by (simp add: bind_res_def)

lemma bind_res_eq_Inr: "(bind_res m f = Inr y) = (\<exists>x. m = Inr x \<and> f x = Inr y)"
  by (cases m) simp_all

lemma bind_res_eq_Inl:
  "(bind_res m f = Inl e) = (m = Inl e \<or> (\<exists>x. m = Inr x \<and> f x = Inl e))"
  by (cases m) auto

subsection \<open>The loop\<close>

lemma for_range_append:
  "for_range body (xs @ ys) s = bind_res (for_range body xs s) (for_range body ys)"
  by (induction xs arbitrary: s) (auto simp: bind_res_def split: sum.splits)

lemma for_range_upt_Suc:
  "for_range body [0..<Suc n] s = bind_res (for_range body [0..<n] s) (body n)"
proof -
  have "for_range body [n] u = body n u" for u
    by (cases "body n u") simp_all
  then have "for_range body [n] = body n" by (rule ext)
  then show ?thesis by (simp add: for_range_append)
qed

lemma for_range_invariant:
  assumes run: "for_range body [0..<n] s = Inr s'"
    and init: "I 0 s"
    and step: "\<And>t u u'. t < n \<Longrightarrow> I t u \<Longrightarrow> body t u = Inr u' \<Longrightarrow> I (Suc t) u'"
  shows "I n s'"
  using run step
proof (induction n arbitrary: s')
  case 0
  then show ?case using init by simp
next
  case (Suc n)
  from Suc.prems(1) obtain u where u: "for_range body [0..<n] s = Inr u" and b: "body n u = Inr s'"
    unfolding for_range_upt_Suc by (auto simp: bind_res_eq_Inr)
  have "I n u" using Suc.IH [OF u] Suc.prems(2) by simp
  then show ?case using Suc.prems(2) [of n u s'] b by simp
qed

lemma for_range_no_error:
  assumes init: "I 0 s"
    and step: "\<And>t u u'. t < n \<Longrightarrow> I t u \<Longrightarrow> body t u = Inr u' \<Longrightarrow> I (Suc t) u'"
    and safe: "\<And>t u. t < n \<Longrightarrow> I t u \<Longrightarrow> body t u \<noteq> Inl e"
  shows "for_range body [0..<n] s \<noteq> Inl e"
  using step safe
proof (induction n)
  case 0
  then show ?case by simp
next
  case (Suc n)
  show ?case
  proof
    assume bad: "for_range body [0..<Suc n] s = Inl e"
    have ih: "for_range body [0..<n] s \<noteq> Inl e"
      using Suc.IH Suc.prems by simp
    from bad ih obtain u where u: "for_range body [0..<n] s = Inr u" and b: "body n u = Inl e"
      unfolding for_range_upt_Suc by (auto simp: bind_res_eq_Inl)
    have "I n u"
    proof (rule for_range_invariant [where I = I, OF u init])
      fix t v v' assume "t < n" "I t v" "body t v = Inr v'"
      then show "I (Suc t) v'" using Suc.prems(1) [of t v v'] by simp
    qed
    then show False using Suc.prems(2) [of n u] b by simp
  qed
qed

lemma test_step_cases:
  assumes "test_step m ses cfg ft b t s = Inr s'"
  obtains root_p_t root_v_t local_q_t contact_t state_input offset_input target_input root_p_m
    h' call h_pred contact_out lqp lqn rvp rp0 fk_q fk_root root_pred_t local_q_pred_t
    start_pose in_between pushed in_true target_pose first_files
  where "test_inputs b t (carried s) = Inr (root_p_t, root_v_t, local_q_t, contact_t)"
    and "build_inputs b root_p_t root_v_t local_q_t contact_t =
           Inr (state_input, offset_input, target_input, root_p_m)"
    and "test_networks m ses ft (test_frames cfg) t (hidden s)
           (state_input, offset_input, target_input) = Inr (h', call, h_pred, contact_out)"
    and "decode_residual m (local_q_dim cfg) h_pred local_q_t root_p_m = Inr (lqp, lqn, rvp, rp0)"
    and "unsqueeze1 (squeeze (of_quats lqn)) = Inr fk_q"
    and "unsqueeze1 (squeeze (of_cube rp0)) = Inr fk_root"
    and "tindex (squeeze (of_cube rp0)) (inference_batch_index cfg) = Inr root_pred_t"
    and "tindex (squeeze (of_quats lqn)) (inference_batch_index cfg) = Inr local_q_pred_t"
    and "sample_frame (inference_batch_index cfg) 9 (global_pos b) = Inr start_pose"
    and "pose_stack s = [in_between]"
    and "output_frame (inference_batch_index cfg)
           (fst (forward_kinematics_with_rotation m fk_q fk_root)) = Inr pushed"
    and "sample_frame (inference_batch_index cfg) (t + 9) (global_pos b) = Inr in_true"
    and "sample_frame (inference_batch_index cfg) (test_frames cfg - 1 + 9) (global_pos b)
           = Inr target_pose"
    and "start_target_events cfg b t start_pose target_pose = Inr first_files"
    and "s' = s\<lparr>hidden := h',
              carried := Some \<lparr>root_pred = squeeze (of_cube rp0), root_v_pred = rvp,
                               local_q_pred = lqp, contact_pred = of_cube contact_out\<rparr>,
              events := events s
                @ [call, ForwardKinematics fk_q fk_root]
                @ first_files
                @ [WriteFrameJson t local_q_pred_t root_pred_t,
                   PlotPose PredPlot t start_pose in_between target_pose,
                   PlotPose GtPlot t start_pose in_true target_pose],
              pose_stack := [pushed]\<rparr>"
  using assms
  apply (simp add: test_step_def bind_res_eq_Inr Let_def split: prod.splits if_splits)
  apply (elim exE conjE)
  subgoal for a b c d
    apply (cases "pose_stack s")
     apply simp
    apply (auto simp: bind_res_eq_Inr split: if_splits)
    done
  done

lemma train_step_cases:
  assumes "train_step m cfg b noise t s = Inr s'"
  obtains root_p_t root_v_t local_q_t contact_t state_input offset_input target_input root_p_m
    h' h_pred contact_out lqp lqn rvp rp0 root_pred1 local_q_pred_1 contact_pred1
    pos_next global_q_next local_q_next root_p_next contact_next
  where "train_inputs b t (carried s) = Inr (root_p_t, root_v_t, local_q_t, contact_t)"
    and "build_inputs b root_p_t root_v_t local_q_t contact_t =
           Inr (state_input, offset_input, target_input, root_p_m)"
    and "train_networks m (training_frames cfg) noise t (hidden s)
           (state_input, offset_input, target_input) = Inr (h', h_pred, contact_out)"
    and "decode_residual m (local_q_dim cfg) h_pred local_q_t root_p_m = Inr (lqp, lqn, rvp, rp0)"
    and "keep_batch of_mat rp0 = Inr root_pred1"
    and "keep_batch of_cube lqn = Inr local_q_pred_1"
    and "keep_batch of_mat contact_out = Inr contact_pred1"
    and "select_frame (t + 11) (global_pos b) = Inr pos_next"
    and "select_frame (t + 11) (global_rot b) = Inr global_q_next"
    and "select_frame (t + 11) (local_q b) = Inr local_q_next"
    and "select_frame (t + 11) (root_p b) = Inr root_p_next"
    and "select_frame (t + 11) (contact b) = Inr contact_next"
    and "s' = s\<lparr>hidden := h',
              carried := Some \<lparr>root_pred = root_pred1, root_v_pred = rvp,
                               local_q_pred = lqp, contact_pred = contact_pred1\<rparr>,
              root_pred_list := root_pred_list s @ [root_pred1],
              local_q_pred_list := local_q_pred_list s @ [local_q_pred_1],
              contact_pred_list := contact_pred_list s @ [contact_pred1],
              pos_next_list := pos_next_list s @ [pos_next],
              global_q_next_list := global_q_next_list s @ [global_q_next],
              local_q_next_list := local_q_next_list s @ [view_flat local_q_next],
              root_p_next_list := root_p_next_list s @ [root_p_next],
              contact_next_list := contact_next_list s @ [contact_next],
              events := events s @ [LstmForward]\<rparr>"
  using assms
  by (auto simp: train_step_def bind_res_eq_Inr Let_def add.commute split: prod.splits if_splits)

subsection \<open>Tensors\<close>

lemma leaves_squeeze [simp]: "leaves (squeeze t) = leaves t"
  by (induction t rule: squeeze.induct) (auto simp: map_idI cong: map_cong)

lemma leaves_of_vec [simp]: "leaves (of_vec xs) = xs"
  by (induction xs) (simp_all add: of_vec_def)

lemma leaves_of_mat [simp]: "leaves (of_mat xs) = concat xs"
  by (induction xs) (simp_all add: of_mat_def)

lemma leaves_of_cube [simp]: "leaves (of_cube xs) = concat (map concat xs)"
  by (induction xs) (simp_all add: of_cube_def)

lemma leaves_of_quats [simp]: "leaves (of_quats xs) = concat (map (\<lambda>c. concat (map concat c)) xs)"
  by (induction xs) (simp_all add: of_quats_def)

lemma those_map_Some [simp]: "those (map Some xs) = Some xs"
  by (induction xs) simp_all


lemma to_vec_of_vec [simp]: "to_vec (of_vec xs) = Some xs"
  by (simp add: of_vec_def comp_def)

lemma to_mat_of_mat [simp]: "to_mat (of_mat xs) = Some xs"
  by (simp add: of_mat_def comp_def)




lemma leaves_unsqueeze1: "unsqueeze1 t = Inr u \<Longrightarrow> leaves u = leaves t"
  by (cases t) (auto simp: comp_def)

subsection \<open>Which exception an operation can raise\<close>

lemma select_frame_error: "select_frame k xs = Inl e \<Longrightarrow> e = IndexError FrameAxis"
  by (auto simp: select_frame_def split: if_splits)

lemma index0_error: "index0 xs = Inl e \<Longrightarrow> e = IndexError TensorAxis"
  by (cases xs) auto

lemma tindex_error: "tindex x i = Inl e \<Longrightarrow> e = IndexError TensorAxis"
  by (cases x) (auto split: if_splits)

lemma unsqueeze1_error: "unsqueeze1 x = Inl e \<Longrightarrow> e = IndexError TensorAxis"
  by (cases x) auto

lemma cat_last_error: "cat_last ms = Inl e \<Longrightarrow> e = RuntimeError"
  by (induction ms arbitrary: e rule: cat_last.induct)
     (auto simp: bind_res_eq_Inl split: if_splits)

lemma zip_mat_error: "zip_mat f a b = Inl e \<Longrightarrow> e = RuntimeError"
  by (auto simp: zip_mat_def split: if_splits)

lemma badd_error: "badd x y = Inl e \<Longrightarrow> e = RuntimeError"
  by (auto simp: badd_def split: if_splits)

lemma view_quat_error: "view_quat x = Inl e \<Longrightarrow> e = RuntimeError"
  by (auto simp: view_quat_def split: if_splits)

lemma of_option_error: "of_option e' x = Inl e \<Longrightarrow> e = e'"
  by (auto simp: of_option_def split: option.splits)

lemma keep_batch_error: "keep_batch conv x = Inl e \<Longrightarrow> e = IndexError TensorAxis"
  by (auto simp: keep_batch_def bind_res_eq_Inl dest: index0_error split: if_splits)

lemma sample_frame_error:
  "sample_frame i k xs = Inl e \<Longrightarrow>
     (e = IndexError FrameAxis \<and> i < length xs \<and> length (xs ! i) \<le> k) \<or>
     (e = IndexError BatchAxis \<and> length xs \<le> i)"
  by (auto simp: sample_frame_def split: if_splits)

lemma sample_last_error:
  "sample_last i xs = Inl e \<Longrightarrow>
     (e = IndexError FrameAxis \<and> i < length xs \<and> xs ! i = []) \<or>
     (e = IndexError BatchAxis \<and> length xs \<le> i)"
  by (auto simp: sample_last_def split: if_splits)

lemma output_frame_error: "output_frame i xs = Inl e \<Longrightarrow> e = IndexError TensorAxis"
  by (auto simp: output_frame_def split: if_splits list.splits)

lemma pop0_error: "pop0 xs = Inl e \<Longrightarrow> e = IndexError PoseStackPop \<and> xs = []"
  by (cases xs) auto

lemma build_inputs_error:
  "build_inputs b rp rv lq ct = Inl e \<Longrightarrow> e = AssertionError RootShape \<or> e = RuntimeError"
  by (auto simp: build_inputs_def bind_res_eq_Inl simp del: cat_last.simps
           dest: cat_last_error zip_mat_error of_option_error split: if_splits)

lemma decode_residual_error: "decode_residual m n hp lq rp = Inl e \<Longrightarrow> e = RuntimeError"
  by (auto simp: decode_residual_def bind_res_eq_Inl Let_def
           dest: badd_error view_quat_error)

lemma train_networks_error: "train_networks m n noise t h inp = Inl e \<Longrightarrow> e = RuntimeError"
  by (auto simp: train_networks_def bind_res_eq_Inl Let_def simp del: cat_last.simps
           dest: cat_last_error zip_mat_error split: prod.splits)

lemma test_networks_error:
  "test_networks m ses ft n t h inp = Inl e \<Longrightarrow> e = RuntimeError \<or> e = TypeError"
  apply (auto simp: test_networks_def bind_res_eq_Inl Let_def simp del: cat_last.simps
           dest: cat_last_error split: prod.splits if_splits)
   apply (metis prod.exhaust)+
  done

lemma train_inputs_error:
  "train_inputs b t c = Inl e \<Longrightarrow>
     (e = IndexError FrameAxis \<and> t = 0) \<or> e = IndexError TensorAxis \<or> e = UnboundLocalError"
  by (auto simp: train_inputs_def bind_res_eq_Inl
           dest: select_frame_error index0_error split: if_splits option.splits)

lemma test_inputs_error:
  "test_inputs b t c = Inl e \<Longrightarrow>
     (e = IndexError FrameAxis \<and> t = 0) \<or> e = IndexError TensorAxis \<or> e = UnboundLocalError"
  by (auto simp: test_inputs_def bind_res_eq_Inl
           dest: select_frame_error index0_error tindex_error split: if_splits option.splits)

lemma start_target_events_error:
  "start_target_events cfg b t sp tp = Inl e \<Longrightarrow>
     e = IndexError FrameAxis \<or> e = IndexError BatchAxis \<or> e = IndexError TensorAxis"
  by (auto simp: start_target_events_def bind_res_eq_Inl
           dest: sample_frame_error sample_last_error index0_error split: if_splits)

subsection \<open>Frame indices\<close>

lemma select_frame_ok:
  "list_all (\<lambda>r. n \<le> length r) xs \<Longrightarrow> k < n \<Longrightarrow> select_frame k xs \<noteq> Inl e"
  by (auto simp: select_frame_def list_all_iff)

lemma sample_frame_ok:
  "list_all (\<lambda>r. n \<le> length r) xs \<Longrightarrow> k < n \<Longrightarrow> sample_frame i k xs \<noteq> Inl (IndexError FrameAxis)"
  by (cases "i < length xs") (auto simp: sample_frame_def list_all_length)

lemma sample_last_ok:
  "list_all (\<lambda>r. n \<le> length r) xs \<Longrightarrow> 0 < n \<Longrightarrow> sample_last i xs \<noteq> Inl (IndexError FrameAxis)"
  by (cases "i < length xs") (auto simp: sample_last_def list_all_length)

lemma train_inputs_frames:
  "frames_at_least n b \<Longrightarrow> 10 < n \<Longrightarrow> train_inputs b t c \<noteq> Inl (IndexError FrameAxis)"
  by (auto simp: train_inputs_def frames_at_least_def bind_res_eq_Inl
           dest: select_frame_ok index0_error split: if_splits option.splits)

lemma test_inputs_frames:
  "frames_at_least n b \<Longrightarrow> 9 < n \<Longrightarrow> test_inputs b t c \<noteq> Inl (IndexError FrameAxis)"
  by (auto simp: test_inputs_def frames_at_least_def bind_res_eq_Inl
           dest: select_frame_ok index0_error tindex_error split: if_splits option.splits)

lemma start_target_events_frames:
  "frames_at_least n b \<Longrightarrow> 0 < n \<Longrightarrow>
   start_target_events cfg b t sp tp \<noteq> Inl (IndexError FrameAxis)"
  by (auto simp: start_target_events_def frames_at_least_def bind_res_eq_Inl
           dest: sample_frame_ok sample_last_ok index0_error split: if_splits)

lemma train_step_frames:
  assumes fr: "frames_at_least (training_frames cfg + 11) b" and t: "t < training_frames cfg"
  shows "train_step m cfg b noise t s \<noteq> Inl (IndexError FrameAxis)"
proof
  assume bad: "train_step m cfg b noise t s = Inl (IndexError FrameAxis)"
  note sel = select_frame_ok [where n = "training_frames cfg + 11" and k = "11 + t", rotated]
  from fr have ti: "train_inputs b t (carried s) \<noteq> Inl (IndexError FrameAxis)"
    by (rule train_inputs_frames) simp
  from bad ti fr t show False
    by (auto simp: train_step_def bind_res_eq_Inl frames_at_least_def sel
             dest: build_inputs_error train_networks_error decode_residual_error keep_batch_error
             split: prod.splits)
qed

lemma test_step_frames:
  assumes fr: "frames_at_least (test_frames cfg + 9) b" and t: "t < test_frames cfg"
  shows "test_step m ses cfg ft b t s \<noteq> Inl (IndexError FrameAxis)"
proof
  assume bad: "test_step m ses cfg ft b t s = Inl (IndexError FrameAxis)"
  have gp: "list_all (\<lambda>r. test_frames cfg + 9 \<le> length r) (global_pos b)"
    using fr by (simp add: frames_at_least_def)
  have sf: "sample_frame i k (global_pos b) \<noteq> Inl (IndexError FrameAxis)"
    if "k < test_frames cfg + 9" for i k
    using gp that by (rule sample_frame_ok)
  have s1: "sample_frame i (0 + 9) (global_pos b) \<noteq> Inl (IndexError FrameAxis)"
    and s2: "sample_frame i (t + 9) (global_pos b) \<noteq> Inl (IndexError FrameAxis)"
    and s3: "sample_frame i (test_frames cfg - 1 + 9) (global_pos b) \<noteq> Inl (IndexError FrameAxis)"
    for i
    using t by (auto intro!: sf)
  from fr t have ti: "test_inputs b t (carried s) \<noteq> Inl (IndexError FrameAxis)"
    by (intro test_inputs_frames [where n = "test_frames cfg + 9"]) simp_all
  from fr t have st: "start_target_events cfg b t sp tp \<noteq> Inl (IndexError FrameAxis)" for sp tp
    by (intro start_target_events_frames [where n = "test_frames cfg + 9"]) simp_all
  from bad ti show False
    using s1 s2 s3 st
    by (auto simp: test_step_def bind_res_eq_Inl Let_def
             dest: build_inputs_error test_networks_error decode_residual_error
                   unsqueeze1_error tindex_error pop0_error output_frame_error
             split: prod.splits if_splits)
qed

subsection \<open>Evaluating concrete runs\<close>

text \<open>Square roots are not computed: a concrete run is evaluated with the root left as
  it stands.\<close>

declare root_def [code del]

subsection \<open>Reading the calls\<close>

lemma in_between_plots_append [simp]:
  "in_between_plots (xs @ ys) = in_between_plots xs @ in_between_plots ys"
  by (induction xs rule: in_between_plots.induct) simp_all

lemma fk_calls_append [simp]: "fk_calls (xs @ ys) = fk_calls xs @ fk_calls ys"
  by (induction xs rule: fk_calls.induct) simp_all

lemma core_calls_append [simp]: "core_calls (xs @ ys) = core_calls xs @ core_calls ys"
  by (induction xs rule: core_calls.induct) simp_all

lemma start_target_events_calls:
  "start_target_events cfg b t sp tp = Inr fs \<Longrightarrow>
     in_between_plots fs = [] \<and> fk_calls fs = [] \<and> core_calls fs = []"
  by (auto simp: start_target_events_def bind_res_eq_Inr split: if_splits)

lemma test_networks_call:
  "test_networks m ses ft n t h inp = Inr (h', call, hp, co) \<Longrightarrow>
     (ft = ''ONNX'' \<and> call = LstmRun \<and> h' = h) \<or> (ft = ''PKL'' \<and> call = LstmForward)"
  apply (auto simp: test_networks_def bind_res_eq_Inr Let_def simp del: cat_last.simps
           split: prod.splits if_splits)
  apply (metis surj_pair)
  done

lemma test_step_pose_stack:
  assumes "test_step m ses cfg ft b t u = Inr u'"
  obtains p pushed q r where "pose_stack u = [p]" and "pose_stack u' = [pushed]"
    and "in_between_plots (events u') = in_between_plots (events u) @ [p]"
    and "fk_calls (events u') = fk_calls (events u) @ [(q, r)]"
    and "predicted_pose m (inference_batch_index cfg) (q, r) = [pushed]"
proof -
  from assms show thesis
  proof (cases rule: test_step_cases)
    case (1 root_p_t root_v_t local_q_t contact_t state_input offset_input target_input root_p_m
      h' call h_pred contact_out lqp lqn rvp rp0 fk_q fk_root root_pred_t local_q_pred_t
      start_pose in_between pushed in_true target_pose first_files)
    note calls = start_target_events_calls [OF 1(14)]
    have c: "call = LstmRun \<or> call = LstmForward"
      using test_networks_call [OF 1(3)] by auto
    show thesis
    proof (rule that [of in_between pushed fk_q fk_root])
      show "pose_stack u = [in_between]" by (rule 1(10))
      show "pose_stack u' = [pushed]" using 1(15) by simp
      show "in_between_plots (events u') = in_between_plots (events u) @ [in_between]"
        using 1(15) calls c by auto
      show "fk_calls (events u') = fk_calls (events u) @ [(fk_q, fk_root)]"
        using 1(15) calls c by auto
      show "predicted_pose m (inference_batch_index cfg) (fk_q, fk_root) = [pushed]"
        using 1(11) by (simp add: predicted_pose_def)
    qed
  qed
qed

lemma test_step_pose_stack_safe:
  assumes "length (pose_stack u) = 1"
  shows "test_step m ses cfg ft b t u \<noteq> Inl (AssertionError PoseStackEmpty)"
    and "test_step m ses cfg ft b t u \<noteq> Inl (IndexError PoseStackPop)"
proof -
  from assms obtain p where p: "pose_stack u = [p]"
    by (cases "pose_stack u") auto
  show "test_step m ses cfg ft b t u \<noteq> Inl (AssertionError PoseStackEmpty)"
    using p
    by (auto simp: test_step_def bind_res_eq_Inl Let_def
             dest: test_inputs_error build_inputs_error test_networks_error decode_residual_error
                   unsqueeze1_error tindex_error sample_frame_error output_frame_error
                   start_target_events_error
             split: prod.splits if_splits)
  show "test_step m ses cfg ft b t u \<noteq> Inl (IndexError PoseStackPop)"
    using p
    by (auto simp: test_step_def bind_res_eq_Inl Let_def
             dest: test_inputs_error build_inputs_error test_networks_error decode_residual_error
                   unsqueeze1_error tindex_error sample_frame_error output_frame_error
                   start_target_events_error
             split: prod.splits if_splits)
qed

subsection \<open>The pose buffer\<close>

lemma take_append_last: "length xs = Suc k \<Longrightarrow> take k xs @ [last xs] = xs"
  by (metis append_butlast_last_id butlast_conv_take diff_Suc_1 length_0_conv nat.simps(3))

lemma test_rollout_pose_stack_safe:
  fixes u :: "'h test_state"
  assumes "length (pose_stack u) = 1"
  shows "test_rollout m ses cfg ft b u \<noteq> Inl (AssertionError PoseStackEmpty)"
    and "test_rollout m ses cfg ft b u \<noteq> Inl (IndexError PoseStackPop)"
proof -
  have keep: "length (pose_stack v') = 1" if "test_step m ses cfg ft b t v = Inr v'" for t v v'
    using that by (rule test_step_pose_stack) simp
  show "test_rollout m ses cfg ft b u \<noteq> Inl (AssertionError PoseStackEmpty)"
    unfolding test_rollout_def
  proof (rule for_range_no_error [where I = "\<lambda>t (v :: 'h test_state). length (pose_stack v) = 1"])
    show "length (pose_stack u) = 1" by fact
  next
    fix t and v v' :: "'h test_state" assume "test_step m ses cfg ft b t v = Inr v'"
    then show "length (pose_stack v') = 1" by (rule keep)
  next
    fix t and v :: "'h test_state" assume "length (pose_stack v) = 1"
    then show "test_step m ses cfg ft b t v \<noteq> Inl (AssertionError PoseStackEmpty)"
      by (rule test_step_pose_stack_safe)
  qed
  show "test_rollout m ses cfg ft b u \<noteq> Inl (IndexError PoseStackPop)"
    unfolding test_rollout_def
  proof (rule for_range_no_error [where I = "\<lambda>t (v :: 'h test_state). length (pose_stack v) = 1"])
    show "length (pose_stack u) = 1" by fact
  next
    fix t and v v' :: "'h test_state" assume "test_step m ses cfg ft b t v = Inr v'"
    then show "length (pose_stack v') = 1" by (rule keep)
  next
    fix t and v :: "'h test_state" assume "length (pose_stack v) = 1"
    then show "test_step m ses cfg ft b t v \<noteq> Inl (IndexError PoseStackPop)"
      by (rule test_step_pose_stack_safe)
  qed
qed

lemma lagging_step:
  assumes inv: "lagging m (inference_batch_index cfg) first old k u"
    and st: "test_step m ses cfg ft b t u = Inr u'"
  shows "lagging m (inference_batch_index cfg) first old (Suc k) u'"
proof -
  let ?pp = "predicted_pose m (inference_batch_index cfg)"
  from inv obtain new where ev: "events u = old @ new"
    and len: "length (concat (map ?pp (fk_calls new))) = k"
    and pl: "in_between_plots new = take k (first # concat (map ?pp (fk_calls new)))"
    and ps: "pose_stack u = [last (first # concat (map ?pp (fk_calls new)))]"
    unfolding lagging_def by blast
  from st obtain p pushed q r where p: "pose_stack u = [p]" and p': "pose_stack u' = [pushed]"
    and pl': "in_between_plots (events u') = in_between_plots (events u) @ [p]"
    and fk': "fk_calls (events u') = fk_calls (events u) @ [(q, r)]"
    and pp: "?pp (q, r) = [pushed]"
    by (rule test_step_pose_stack)
  from st obtain more where ev': "events u' = events u @ more"
    by (cases rule: test_step_cases) simp
  let ?preds = "concat (map ?pp (fk_calls new))"
  have fkm: "fk_calls more = [(q, r)]" and plm: "in_between_plots more = [p]"
    using fk' pl' ev' by simp_all
  have preds': "concat (map ?pp (fk_calls (new @ more))) = ?preds @ [pushed]"
    using fkm pp by simp
  have plast: "p = last (first # ?preds)" using p ps by simp
  have "in_between_plots (new @ more) = take (Suc k) (first # ?preds @ [pushed])"
    using pl plm plast len take_append_last [of "first # ?preds" k] by simp
  moreover have "events u' = old @ (new @ more)" using ev ev' by simp
  ultimately show ?thesis
    unfolding lagging_def using preds' len p'
    by (intro exI [of _ "new @ more"]) simp
qed


subsection \<open>Normalised quaternions\<close>

lemma sum_squares_nonneg: "0 \<le> sum_list (map (\<lambda>x. x * x) (q :: real list))"
  by (induction q) simp_all

lemma sum_squares_eq_0: "sum_list (map (\<lambda>x. x * x) (q :: real list)) = 0 \<longleftrightarrow> list_all (\<lambda>x. x = 0) q"
proof (induction q)
  case Nil
  then show ?case by simp
next
  case (Cons a q)
  have "a * a + sum_list (map (\<lambda>x. x * x) q) = 0 \<longleftrightarrow> a * a = 0 \<and> sum_list (map (\<lambda>x. x * x) q) = 0"
    using sum_squares_nonneg [of q] by (intro add_nonneg_eq_0_iff) simp_all
  then show ?case using Cons.IH by simp
qed

lemma l2_norm_eq_0: "l2_norm q = 0 \<longleftrightarrow> list_all (\<lambda>x. x = 0) q"
  by (simp add: l2_norm_def sum_squares_eq_0)

lemma l2_norm_nonneg: "0 \<le> l2_norm q"
  by (simp add: l2_norm_def sum_squares_nonneg)

lemma l2_norm_square: "l2_norm q * l2_norm q = sum_list (map (\<lambda>x. x * x) q)"
  using sum_squares_nonneg [of q] by (simp add: l2_norm_def)

lemma exact_norm_code [code]:
  "exact_norm q =
     (if sum_list (map (\<lambda>x. x * x) q) = 0 then Some 0
      else if sum_list (map (\<lambda>x. x * x) q) = 1 then Some 1
      else Some (l2_norm q))"
  by (simp add: exact_norm_def l2_norm_def)

text \<open>Entries that are scaled within two factors have a norm scaled within them.\<close>

lemma sum_squares_upper:
  fixes c :: real
  assumes "list_all2 (\<lambda>x y. \<bar>y\<bar> \<le> c * \<bar>x\<bar>) xs ys"
  shows "sum_list (map (\<lambda>y. y * y) ys) \<le> c * c * sum_list (map (\<lambda>x. x * x) xs)"
  using assms
proof (induction rule: list_all2_induct)
  case Nil
  then show ?case by simp
next
  case (Cons x xs y ys)
  have "\<bar>y\<bar> * \<bar>y\<bar> \<le> (c * \<bar>x\<bar>) * (c * \<bar>x\<bar>)"
    using Cons.hyps(1) by (intro mult_mono) simp_all
  then have "y * y \<le> c * c * (x * x)"
    by (simp add: algebra_simps abs_mult_self_eq)
  then show ?case using Cons.IH by (simp add: algebra_simps)
qed

lemma sum_squares_lower:
  fixes c :: real
  assumes "list_all2 (\<lambda>x y. c * \<bar>x\<bar> \<le> \<bar>y\<bar>) xs ys" and "0 \<le> c"
  shows "c * c * sum_list (map (\<lambda>x. x * x) xs) \<le> sum_list (map (\<lambda>y. y * y) ys)"
  using assms
proof (induction rule: list_all2_induct)
  case Nil
  then show ?case by simp
next
  case (Cons x xs y ys)
  have "(c * \<bar>x\<bar>) * (c * \<bar>x\<bar>) \<le> \<bar>y\<bar> * \<bar>y\<bar>"
    using Cons.hyps(1) Cons.prems by (intro mult_mono) simp_all
  then have "c * c * (x * x) \<le> y * y"
    by (simp add: algebra_simps abs_mult_self_eq)
  then show ?case using Cons.IH Cons.prems by (simp add: algebra_simps)
qed

lemma l2_norm_upper:
  fixes c :: real
  assumes "list_all2 (\<lambda>x y. \<bar>y\<bar> \<le> c * \<bar>x\<bar>) xs ys" and "0 \<le> c"
  shows "l2_norm ys \<le> c * l2_norm xs"
proof -
  have "l2_norm ys = sqrt (sum_list (map (\<lambda>y. y * y) ys))"
    by (simp add: l2_norm_def)
  also have "\<dots> \<le> sqrt (c * c * sum_list (map (\<lambda>x. x * x) xs))"
    using sum_squares_upper [OF assms(1)] by simp
  also have "\<dots> = c * l2_norm xs"
    using assms(2) by (simp add: l2_norm_def real_sqrt_mult)
  finally show ?thesis .
qed

lemma l2_norm_lower:
  fixes c :: real
  assumes "list_all2 (\<lambda>x y. c * \<bar>x\<bar> \<le> \<bar>y\<bar>) xs ys" and "0 \<le> c"
  shows "c * l2_norm xs \<le> l2_norm ys"
proof -
  have "c * l2_norm xs = sqrt (c * c * sum_list (map (\<lambda>x. x * x) xs))"
    using assms(2) by (simp add: l2_norm_def real_sqrt_mult)
  also have "\<dots> \<le> sqrt (sum_list (map (\<lambda>y. y * y) ys))"
    using sum_squares_lower [OF assms] by simp
  also have "\<dots> = l2_norm ys"
    by (simp add: l2_norm_def)
  finally show ?thesis .
qed

text \<open>The quotients of an accurate arithmetic are finite and close to the quotients of
  the real numbers.\<close>

lemma accurate_quotients:
  assumes "list_all
             (\<lambda>x. case dv x of None \<Rightarrow> False | Some y \<Rightarrow> \<bar>y - x / n\<bar> \<le> e * \<bar>x / n\<bar>) q"
  obtains v where "map dv q = map Some v"
    and "list_all2 (\<lambda>x y. \<bar>y - x / n\<bar> \<le> e * \<bar>x / n\<bar>) q v"
proof -
  from assms
  have "\<exists>v. map dv q = map Some v \<and> list_all2 (\<lambda>x y. \<bar>y - x / n\<bar> \<le> e * \<bar>x / n\<bar>) q v"
  proof (induction q)
    case Nil
    then show ?case by simp
  next
    case (Cons x q)
    from Cons.prems obtain y where y: "dv x = Some y" "\<bar>y - x / n\<bar> \<le> e * \<bar>x / n\<bar>"
      by (auto split: option.splits)
    from Cons.prems Cons.IH obtain v where v: "map dv q = map Some v"
      "list_all2 (\<lambda>x y. \<bar>y - x / n\<bar> \<le> e * \<bar>x / n\<bar>) q v"
      by auto
    show ?case using y v by (intro exI [of _ "y # v"]) simp
  qed
  then show thesis using that by blast
qed

lemma accurate_unit_within:
  assumes e: "0 \<le> e" "e < 1" and acc: "accurate m e q"
  shows "unit_within e (quat_normalize m q)"
proof -
  define N where "N = l2_norm q"
  have Npos: "0 < N"
    using acc l2_norm_nonneg [of q] by (simp add: accurate_def N_def less_le)
  from acc obtain n where n: "torch_norm m q = Some n" "\<bar>n - N\<bar> \<le> e * N"
    and quot: "list_all
      (\<lambda>x. case torch_div m x (Some n) of
             None \<Rightarrow> False | Some y \<Rightarrow> \<bar>y - x / n\<bar> \<le> e * \<bar>x / n\<bar>) q"
    by (auto simp: accurate_def N_def split: option.splits)
  have nlow: "(1 - e) * N \<le> n" and nup: "n \<le> (1 + e) * N"
    using n(2) by (simp_all add: abs_le_iff algebra_simps)
  have npos: "0 < n"
  proof -
    have "0 < (1 - e) * N" using e Npos by simp
    then show ?thesis using nlow by simp
  qed
  from accurate_quotients [OF quot] obtain v
    where v: "map (\<lambda>x. torch_div m x (Some n)) q = map Some v"
      and close: "list_all2 (\<lambda>x y. \<bar>y - x / n\<bar> \<le> e * \<bar>x / n\<bar>) q v"
    by blast
  have up: "list_all2 (\<lambda>x y. \<bar>y\<bar> \<le> (1 + e) / n * \<bar>x\<bar>) q v"
  proof (rule list_all2_mono [OF close])
    fix x y :: real
    assume close: "\<bar>y - x / n\<bar> \<le> e * \<bar>x / n\<bar>"
    have "\<bar>y\<bar> = \<bar>x / n + (y - x / n)\<bar>" by simp
    also have "\<dots> \<le> \<bar>x / n\<bar> + \<bar>y - x / n\<bar>" by (rule abs_triangle_ineq)
    finally have "\<bar>y\<bar> \<le> \<bar>x / n\<bar> + e * \<bar>x / n\<bar>" using close by linarith
    also have "\<dots> = (1 + e) / n * \<bar>x\<bar>"
      using npos by (simp add: field_simps)
    finally show "\<bar>y\<bar> \<le> (1 + e) / n * \<bar>x\<bar>" .
  qed
  have low: "list_all2 (\<lambda>x y. (1 - e) / n * \<bar>x\<bar> \<le> \<bar>y\<bar>) q v"
  proof (rule list_all2_mono [OF close])
    fix x y :: real
    assume close: "\<bar>y - x / n\<bar> \<le> e * \<bar>x / n\<bar>"
    have "\<bar>x / n\<bar> = \<bar>y + (x / n - y)\<bar>" by simp
    also have "\<dots> \<le> \<bar>y\<bar> + \<bar>x / n - y\<bar>" by (rule abs_triangle_ineq)
    also have "\<bar>x / n - y\<bar> = \<bar>y - x / n\<bar>" by (rule abs_minus_commute)
    finally have "\<bar>x / n\<bar> - e * \<bar>x / n\<bar> \<le> \<bar>y\<bar>" using close by linarith
    moreover have "\<bar>x / n\<bar> - e * \<bar>x / n\<bar> = (1 - e) / n * \<bar>x\<bar>"
      using npos by (simp add: field_simps)
    ultimately show "(1 - e) / n * \<bar>x\<bar> \<le> \<bar>y\<bar>" by simp
  qed
  have "l2_norm v \<le> (1 + e) / n * N"
    unfolding N_def using e npos by (intro l2_norm_upper [OF up]) simp
  also have "\<dots> \<le> (1 + e) / (1 - e)"
  proof -
    have "N / n \<le> 1 / (1 - e)"
      using nlow npos e Npos by (simp add: field_simps)
    then have "(1 + e) * (N / n) \<le> (1 + e) * (1 / (1 - e))"
      using e by (intro mult_left_mono) simp_all
    then show ?thesis by simp
  qed
  finally have upper: "l2_norm v \<le> (1 + e) / (1 - e)" .
  have "(1 - e) / (1 + e) \<le> (1 - e) / n * N"
  proof -
    have "1 / (1 + e) \<le> N / n"
      using nup npos e Npos by (simp add: field_simps)
    then have "(1 - e) * (1 / (1 + e)) \<le> (1 - e) * (N / n)"
      using e by (intro mult_left_mono) simp_all
    then show ?thesis by simp
  qed
  also have "\<dots> \<le> l2_norm v"
    unfolding N_def using e npos by (intro l2_norm_lower [OF low]) simp
  finally have lower: "(1 - e) / (1 + e) \<le> l2_norm v" .
  have "quat_normalize m q = map Some v"
    using v n(1) by (simp add: quat_normalize_def)
  then show ?thesis
    using lower upper by (simp add: unit_within_def those_map_Some)
qed


text \<open>The binary32 arithmetic on the numbers of the concrete runs.\<close>

lemma floor_log2:
  assumes "2 powi k \<le> \<bar>x\<bar>" "\<bar>x\<bar> < 2 powi (k + 1)"
  shows "\<lfloor>log 2 \<bar>x\<bar>\<rfloor> = k"
proof -
  have "(0 :: real) < 2 powi k" by simp
  then have pos: "0 < \<bar>x\<bar>" using assms(1) by linarith
  have "of_int k \<le> log 2 \<bar>x\<bar>"
    using assms(1) pos by (simp add: le_log_iff powr_real_of_int')
  moreover have "log 2 \<bar>x\<bar> < of_int (k + 1)"
    using assms(2) pos by (simp add: log_less_iff powr_real_of_int' del: of_int_add)
  ultimately show ?thesis by (simp add: floor_eq_iff)
qed

lemma log2_less_powi:
  assumes "0 < x" "x < 2 powi k"
  shows "log 2 x < of_int k"
  using assms by (simp add: log_less_iff powr_real_of_int')

lemma binary32_normal:
  assumes "2 powi k \<le> \<bar>x\<bar>" "\<bar>x\<bar> < 2 powi (k + 1)" "- 126 \<le> k"
  shows "binary32 x =
     (let r = of_int (rne (x / 2 powi (k - 23))) * 2 powi (k - 23)
      in if 2 ^ 128 \<le> \<bar>r\<bar> then None else Some r)"
proof -
  have "(0 :: real) < 2 powi k" by simp
  then have "0 < \<bar>x\<bar>" using assms(1) by linarith
  then have "x \<noteq> 0" by auto
  then show ?thesis
    using floor_log2 [OF assms(1,2)] assms(3) by (simp add: binary32_def max_def)
qed

lemma binary32_subnormal:
  assumes "\<bar>x\<bar> < 2 powi (- 126)"
  shows "binary32 x =
     (let r = of_int (rne (x / 2 powi (- 149))) * 2 powi (- 149)
      in if 2 ^ 128 \<le> \<bar>r\<bar> then None else Some r)"
proof (cases "x = 0")
  case True
  then show ?thesis by (simp add: binary32_def rne_def)
next
  case False
  then have pos: "0 < \<bar>x\<bar>" by simp
  have "log 2 \<bar>x\<bar> < of_int (- 126)"
    using pos assms by (rule log2_less_powi)
  then have "\<lfloor>log 2 \<bar>x\<bar>\<rfloor> < - 126"
    by (simp add: floor_less_iff)
  then show ?thesis using False by (simp add: binary32_def max_def)
qed

lemma binary32_values:
  "binary32 0 = Some 0" "binary32 9 = Some 9" "binary32 16 = Some 16" "binary32 25 = Some 25"
  "binary32 5 = Some 5"
  "binary32 (3 / 5) = Some (10066330 / 16777216)"
  "binary32 (4 / 5) = Some (13421773 / 16777216)"
  "binary32 (1 / 2 ^ 200) = Some 0"
  "binary32 (2 ^ 140) = None"
  using binary32_normal [of 3 9] binary32_normal [of 4 16] binary32_normal [of 4 25]
    binary32_normal [of 2 5] binary32_normal [of "- 1" "3 / 5"] binary32_normal [of "- 1" "4 / 5"]
    binary32_subnormal [of "1 / 2 ^ 200"] binary32_normal [of 140 "2 ^ 140"]
  by (simp_all add: binary32_def rne_def power_int_minus)

lemma binary32_runs:
  "binary32_norm [3, 0, 4, 0] = Some 5"
  "binary32_norm [1 / 2 ^ 100, 0, 0, 0] = Some 0"
  "binary32_norm [2 ^ 70, 0, 0, 0] = None"
proof -
  have s: "sqrt 25 = 5" using real_sqrt_abs [of 5] by (simp add: power2_eq_square)
  show "binary32_norm [3, 0, 4, 0] = Some 5"
    by (simp add: binary32_norm_def binary32_add_def binary32_values s)
  show "binary32_norm [1 / 2 ^ 100, 0, 0, 0] = Some 0"
    using binary32_values(1,8) by (simp add: binary32_norm_def binary32_add_def)
  show "binary32_norm [2 ^ 70, 0, 0, 0] = None"
    using binary32_values(1,9) by (simp add: binary32_norm_def binary32_add_def)
qed

lemma l2_norm_values: "l2_norm [3, 0, 4, 0] = 5" "l2_norm [1 / 2 ^ 100, 0, 0, 0] = 1 / 2 ^ 100"
  using real_sqrt_abs [of 5] real_sqrt_abs [of "1 / 2 ^ 100"]
  by (simp_all add: l2_norm_def power2_eq_square)


subsection \<open>The predictions of a timestep\<close>

lemma badd_Inr: "badd x y = Inr z \<Longrightarrow> z = map (\<lambda>m. map2 (map2 (+)) m y) x"
  by (auto simp: badd_def split: if_splits)

lemma decode_residual_cases:
  assumes "decode_residual m n hp lq rp = Inr (lqp, lqn, rvp, rp0)"
  shows "lqp = map (\<lambda>m. map2 (map2 (+)) m lq) (map (map (take n)) hp)"
    and "lqn = map (map (\<lambda>r. map (quat_normalize m) (chunks4 r))) lqp"
    and "rvp = map (map (drop n)) hp"
    and "rp0 = map (\<lambda>m. map2 (map2 (+)) m rp) rvp"
    and "badd rvp rp = Inr rp0"
  using assms
  by (auto simp: decode_residual_def bind_res_eq_Inr Let_def view_quat_def
           dest: badd_Inr split: if_splits)

lemma length_chunks4: "q \<in> set (chunks4 r) \<Longrightarrow> length q = 4"
  by (auto simp: chunks4_def)

lemma quats_of_length: "list_all (\<lambda>q. length q = 4) (quats_of c)"
  by (auto simp: quats_of_def list_all_iff dest: length_chunks4)

lemma leaves_normalized_mat:
  "concat (map (\<lambda>r. concat (map f (chunks4 r))) m) = concat (map f (concat (map chunks4 m)))"
  by (induction m) simp_all

lemma leaves_normalized_cube:
  "concat (map (\<lambda>c. concat (map concat c)) (map (map (\<lambda>r. map f (chunks4 r))) c))
     = concat (map f (quats_of c))"
  by (induction c) (simp_all add: quats_of_def leaves_normalized_mat comp_def)

lemma size1_map [simp]: "size1 (map (map f) x) = size1 x"
  by (cases x) simp_all

lemma kept_map: "kept (map (map f) x) = map (map f) (kept x)"
  by (simp add: kept_def take_map)

lemma keep_batch_leaves:
  "keep_batch conv x = Inr t \<Longrightarrow> leaves t = concat (map (leaves \<circ> conv) (kept x))"
  by (cases x) (auto simp: keep_batch_def kept_def bind_res_eq_Inr comp_def split: if_splits)

lemma train_step_quaternions:
  assumes "train_step m cfg b noise t s = Inr s'"
  obtains x p where "local_q_pred_list s' = local_q_pred_list s @ [x]" and "carried s' = Some p"
    and "leaves x = concat (map (quat_normalize m) (quats_of (kept (local_q_pred p))))"
proof -
  from assms show thesis
  proof (cases rule: train_step_cases)
    case (1 root_p_t root_v_t local_q_t contact_t state_input offset_input target_input root_p_m
      h' h_pred contact_out lqp lqn rvp rp0 root_pred1 local_q_pred_1 contact_pred1)
    note d = decode_residual_cases [OF 1(4)]
    have "leaves local_q_pred_1 = concat (map (\<lambda>c. concat (map concat c)) (kept lqn))"
      using keep_batch_leaves [OF 1(6)] by (simp add: comp_def)
    also have "kept lqn = map (map (\<lambda>r. map (quat_normalize m) (chunks4 r))) (kept lqp)"
      unfolding d(2) by (rule kept_map)
    finally have "leaves local_q_pred_1 = concat (map (quat_normalize m) (quats_of (kept lqp)))"
      by (simp only: leaves_normalized_cube)
    then show thesis using 1(13) by (intro that [of local_q_pred_1 "the (carried s')"]) simp_all
  qed
qed

lemma test_step_quaternions:
  assumes "test_step m ses cfg ft b t u = Inr u'"
  obtains q r p where "last (fk_calls (events u')) = (q, r)" and "carried u' = Some p"
    and "leaves q = concat (map (quat_normalize m) (quats_of (local_q_pred p)))"
proof -
  from assms show thesis
  proof (cases rule: test_step_cases)
    case (1 root_p_t root_v_t local_q_t contact_t state_input offset_input target_input root_p_m
      h' call h_pred contact_out lqp lqn rvp rp0 fk_q fk_root root_pred_t local_q_pred_t
      start_pose in_between pushed in_true target_pose first_files)
    note d = decode_residual_cases [OF 1(4)]
    note calls = start_target_events_calls [OF 1(14)]
    have c: "call = LstmRun \<or> call = LstmForward"
      using test_networks_call [OF 1(3)] by auto
    have "leaves fk_q = concat (map (\<lambda>c. concat (map concat c)) lqn)"
      using leaves_unsqueeze1 [OF 1(5)] by simp
    then have "leaves fk_q = concat (map (quat_normalize m) (quats_of lqp))"
      unfolding d(2) by (simp only: leaves_normalized_cube)
    moreover have "last (fk_calls (events u')) = (fk_q, fk_root)"
      using 1(15) calls c by auto
    ultimately show thesis
      using 1(15) by (intro that [of fk_q fk_root "the (carried u')"]) simp_all
  qed
qed


subsection \<open>The residual\<close>





















subsection \<open>The calls of a window\<close>

lemma single_frame_unsqueeze1: "unsqueeze1 t = Inr u \<Longrightarrow> single_frame u"
  by (cases t) (auto simp: list_all_iff)

lemma core_calls_replicate_forward [simp]:
  "core_calls (replicate n LstmForward) = replicate n LstmForward"
  by (induction n) simp_all

lemma fk_calls_replicate_forward [simp]: "fk_calls (replicate n LstmForward) = []"
  by (induction n) simp_all

lemma core_calls_update_events [simp]: "core_calls update_events = []"
  by (simp add: update_events_def)

lemma fk_calls_update_events [simp]: "fk_calls update_events = []"
  by (simp add: update_events_def)

lemma replicate_Suc_snoc: "replicate n x @ [x] = replicate (Suc n) x"
  by (simp add: replicate_append_same)

lemma train_rollout_events:
  fixes s :: "'h train_state"
  assumes run: "train_rollout m cfg b noise s = Inr s'"
    and start: "root_pred_list s = []" "local_q_pred_list s = []"
  shows "events s' = events s @ replicate (training_frames cfg) LstmForward \<and>
         length (root_pred_list s') = training_frames cfg \<and>
         length (local_q_pred_list s') = training_frames cfg"
proof -
  let ?I = "\<lambda>k (v :: 'h train_state).
      events v = events s @ replicate k LstmForward \<and>
      length (root_pred_list v) = k \<and> length (local_q_pred_list v) = k"
  have "?I (training_frames cfg) s'"
  proof (rule for_range_invariant [where I = ?I, OF run [unfolded train_rollout_def]])
    show "?I 0 s" using start by simp
  next
    fix t and v v' :: "'h train_state"
    assume inv: "?I t v" and st: "train_step m cfg b noise t v = Inr v'"
    from st show "?I (Suc t) v'"
    proof (cases rule: train_step_cases)
      case 1
      then show ?thesis using inv by (simp add: replicate_append_same)
    qed
  qed
  then show ?thesis by simp
qed

lemma train_batch_events:
  assumes "train_batch m cfg (b, noise) s = Inr s'"
  obtains q r where "stack1 (local_q_pred_list s') = Inr q"
    and "stack1 (root_pred_list s') = Inr r"
    and "length (root_pred_list s') = training_frames cfg"
    and "length (local_q_pred_list s') = training_frames cfg"
    and "events s' = events s @ InitHidden (current_batch_size b)
           # replicate (training_frames cfg) LstmForward
           @ [ForwardKinematics q r] @ update_events"
proof -
  let ?s0 = "s\<lparr>hidden := init_hidden m (current_batch_size b),
                 root_pred_list := [], local_q_pred_list := [], contact_pred_list := [],
                 pos_next_list := [], local_q_next_list := [], root_p_next_list := [],
                 contact_next_list := [], global_q_next_list := [],
                 events := events s @ [InitHidden (current_batch_size b)]\<rparr>"
  from assms obtain s1 q r where roll: "train_rollout m cfg b noise ?s0 = Inr s1"
    and r: "stack1 (root_pred_list s1) = Inr r" and q: "stack1 (local_q_pred_list s1) = Inr q"
    and s': "s' = s1\<lparr>events := events s1 @ [ForwardKinematics q r] @ update_events\<rparr>"
    by (auto simp: train_batch_def bind_res_eq_Inr Let_def)
  have "events s1 = events ?s0 @ replicate (training_frames cfg) LstmForward \<and>
         length (root_pred_list s1) = training_frames cfg \<and>
         length (local_q_pred_list s1) = training_frames cfg"
    using roll by (rule train_rollout_events) simp_all
  then show thesis using r q s' by (intro that [of q r]) simp_all
qed

lemma train_batch_hidden:
  "train_batch m cfg bn (s\<lparr>hidden := h\<rparr>) = train_batch m cfg bn s"
  by (simp add: train_batch_def)

lemma test_batch_hidden_pkl:
  "test_batch m ses cfg ''PKL'' i b (u\<lparr>hidden := h\<rparr>) = test_batch m ses cfg ''PKL'' i b u"
  by (simp add: test_batch_def Let_def)

lemma test_step_calls:
  assumes "test_step m ses cfg ft b t u = Inr u'"
  obtains more q r where "events u' = events u @ more" and "fk_calls more = [(q, r)]"
    and "single_frame q" and "single_frame r"
    and "ft = ''ONNX'' \<and> core_calls more = [LstmRun] \<and> hidden u' = hidden u \<or>
         ft = ''PKL'' \<and> core_calls more = [LstmForward]"
proof -
  from assms show thesis
  proof (cases rule: test_step_cases)
    case (1 root_p_t root_v_t local_q_t contact_t state_input offset_input target_input root_p_m
      h' call h_pred contact_out lqp lqn rvp rp0 fk_q fk_root root_pred_t local_q_pred_t
      start_pose in_between pushed in_true target_pose first_files)
    note calls = start_target_events_calls [OF 1(14)]
    note c = test_networks_call [OF 1(3)]
    let ?more = "[call, ForwardKinematics fk_q fk_root] @ first_files
                @ [WriteFrameJson t local_q_pred_t root_pred_t,
                   PlotPose PredPlot t start_pose in_between target_pose,
                   PlotPose GtPlot t start_pose in_true target_pose]"
    show thesis
    proof (rule that [where more = ?more and q = fk_q and r = fk_root])
      show "events u' = events u @ ?more" using 1(15) by simp
      show "fk_calls ?more = [(fk_q, fk_root)]" using calls c by auto
      show "single_frame fk_q" using 1(5) by (rule single_frame_unsqueeze1)
      show "single_frame fk_root" using 1(6) by (rule single_frame_unsqueeze1)
      show "ft = ''ONNX'' \<and> core_calls ?more = [LstmRun] \<and> hidden u' = hidden u \<or>
         ft = ''PKL'' \<and> core_calls ?more = [LstmForward]"
        using calls c 1(15) by auto
    qed
  qed
qed

lemma test_rollout_calls:
  fixes u :: "'h test_state"
  assumes run: "test_rollout m ses cfg ft b u = Inr u'"
  shows "\<exists>new. events u' = events u @ new \<and> length (fk_calls new) = test_frames cfg \<and>
           list_all (\<lambda>c. single_frame (fst c) \<and> single_frame (snd c)) (fk_calls new) \<and>
           (test_frames cfg = 0 \<and> core_calls new = [] \<and> hidden u' = hidden u \<or>
            ft = ''ONNX'' \<and> core_calls new = replicate (test_frames cfg) LstmRun \<and>
              hidden u' = hidden u \<or>
            ft = ''PKL'' \<and> core_calls new = replicate (test_frames cfg) LstmForward)"
proof -
  let ?I = "\<lambda>k (v :: 'h test_state).
      \<exists>new. events v = events u @ new \<and> length (fk_calls new) = k \<and>
           list_all (\<lambda>c. single_frame (fst c) \<and> single_frame (snd c)) (fk_calls new) \<and>
           (k = 0 \<and> core_calls new = [] \<and> hidden v = hidden u \<or>
            ft = ''ONNX'' \<and> core_calls new = replicate k LstmRun \<and> hidden v = hidden u \<or>
            ft = ''PKL'' \<and> core_calls new = replicate k LstmForward)"
  show "?I (test_frames cfg) u'"
  proof (rule for_range_invariant [where I = ?I, OF run [unfolded test_rollout_def]])
    show "?I 0 u" by simp
  next
    fix t and v v' :: "'h test_state"
    assume inv: "?I t v" and st: "test_step m ses cfg ft b t v = Inr v'"
    from inv obtain new where new: "events v = events u @ new" "length (fk_calls new) = t"
      "list_all (\<lambda>c. single_frame (fst c) \<and> single_frame (snd c)) (fk_calls new)"
      and core: "t = 0 \<and> core_calls new = [] \<and> hidden v = hidden u \<or>
            ft = ''ONNX'' \<and> core_calls new = replicate t LstmRun \<and> hidden v = hidden u \<or>
            ft = ''PKL'' \<and> core_calls new = replicate t LstmForward"
      by blast
    from st obtain more q r where more: "events v' = events v @ more" "fk_calls more = [(q, r)]"
      "single_frame q" "single_frame r"
      and c: "ft = ''ONNX'' \<and> core_calls more = [LstmRun] \<and> hidden v' = hidden v \<or>
         ft = ''PKL'' \<and> core_calls more = [LstmForward]"
      by (rule test_step_calls)
    have 1: "events v' = events u @ (new @ more)" using new more by simp
    have 2: "length (fk_calls (new @ more)) = Suc t" using new more by simp
    have 3: "list_all (\<lambda>c. single_frame (fst c) \<and> single_frame (snd c)) (fk_calls (new @ more))"
      using new more by simp
    have 4: "ft = ''ONNX'' \<and> core_calls (new @ more) = replicate (Suc t) LstmRun \<and>
              hidden v' = hidden u \<or>
            ft = ''PKL'' \<and> core_calls (new @ more) = replicate (Suc t) LstmForward"
      using core c by (auto simp: replicate_append_same)
    show "?I (Suc t) v'" using 1 2 3 4 by blast
  qed
qed

lemma test_batches_full:
  "list_all (\<lambda>b. current_batch_size b = batch_size cfg) full \<Longrightarrow>
   test_batches m ses cfg ft i (full @ rest) u =
     bind_res (test_all m ses cfg ft i full u) (test_batches m ses cfg ft (i + length full) rest)"
proof (induction full arbitrary: i u)
  case Nil
  then show ?case by simp
next
  case (Cons b full)
  then show ?case
    by (cases "test_batch m ses cfg ft i b u") simp_all
qed

lemma bind_res_return [simp]: "bind_res m Inr = m"
  by (cases m) simp_all

lemma train_epoch_append:
  "train_epoch m cfg (bns @ bns') s = bind_res (train_epoch m cfg bns s) (train_epoch m cfg bns')"
proof (induction bns arbitrary: s)
  case Nil
  then show ?case by simp
next
  case (Cons bn bns)
  then show ?case by (cases "train_batch m cfg bn s") simp_all
qed

lemma test_batch_calls:
  fixes u :: "'h test_state"
  assumes "test_batch m ses cfg ft i b u = Inr u'"
  obtains new where "events u' = events u @ new"
    and "length (fk_calls new) = test_frames cfg"
    and "list_all (\<lambda>c. single_frame (fst c) \<and> single_frame (snd c)) (fk_calls new)"
    and "ft = ''PKL'' \<longrightarrow>
           core_calls new = InitHidden (current_batch_size b) # replicate (test_frames cfg) LstmForward"
    and "ft = ''ONNX'' \<longrightarrow>
           core_calls new = replicate (test_frames cfg) LstmRun \<and> hidden u' = hidden u"
proof -
  from assms obtain first where first:
    "sample_frame (inference_batch_index cfg) (0 + 9) (global_pos b) = Inr first"
    by (auto simp: test_batch_def bind_res_eq_Inr)
  define s1 where "s1 = (if ft = ''PKL''
       then u\<lparr>pose_stack := [first], hidden := init_hidden m (current_batch_size b),
               events := events u @ [InitHidden (current_batch_size b)]\<rparr>
       else u\<lparr>pose_stack := [first]\<rparr>)"
  from assms first obtain s2 where roll: "test_rollout m ses cfg ft b s1 = Inr s2"
    and u': "u' = s2\<lparr>events := events s2 @ [SaveGif i]\<rparr>"
    by (auto simp: test_batch_def bind_res_eq_Inr Let_def s1_def split: if_splits)
  from test_rollout_calls [OF roll] obtain new where new: "events s2 = events s1 @ new"
    "length (fk_calls new) = test_frames cfg"
    "list_all (\<lambda>c. single_frame (fst c) \<and> single_frame (snd c)) (fk_calls new)"
    and core: "test_frames cfg = 0 \<and> core_calls new = [] \<and> hidden s2 = hidden s1 \<or>
            ft = ''ONNX'' \<and> core_calls new = replicate (test_frames cfg) LstmRun \<and>
              hidden s2 = hidden s1 \<or>
            ft = ''PKL'' \<and> core_calls new = replicate (test_frames cfg) LstmForward"
    by blast
  let ?pre = "if ft = ''PKL'' then [InitHidden (current_batch_size b)] else []"
  let ?new = "?pre @ new @ [SaveGif i]"
  show thesis
  proof (rule that [of ?new])
    show "events u' = events u @ ?new" using u' new by (simp add: s1_def)
    show "length (fk_calls ?new) = test_frames cfg" using new by simp
    show "list_all (\<lambda>c. single_frame (fst c) \<and> single_frame (snd c)) (fk_calls ?new)"
      using new by simp
    show "ft = ''PKL'' \<longrightarrow>
           core_calls ?new = InitHidden (current_batch_size b) # replicate (test_frames cfg) LstmForward"
      using core by auto
    show "ft = ''ONNX'' \<longrightarrow>
           core_calls ?new = replicate (test_frames cfg) LstmRun \<and> hidden u' = hidden u"
      using core u' by (auto simp: s1_def)
  qed
qed


section \<open>The claims\<close>

subsection \<open>C3: gradient clipping and the optimizer steps\<close>

text \<open>
  C3 says that in every training batch the gradients of every trainable module are
  clipped with cap 1.0 before the optimizer step of that module runs. The calls of a
  batch are the same for every batch. The generator optimizer steps after its five
  networks were clipped; the discriminator optimizer steps right after its backward
  pass, before any clipping call, so both discriminators are stepped on unclipped
  gradients. The two clipping calls on the discriminators come after that step.
\<close>

theorem discriminator_step_before_clipping:
  "unclipped [] update_events =
     [(DiscriminatorOptimizer, ShortDiscriminator), (DiscriminatorOptimizer, LongDiscriminator)] \<and>
   takeWhile (\<lambda>e. e \<noteq> OptimizerStep DiscriminatorOptimizer) update_events =
     [ZeroGrad DiscriminatorOptimizer, Backward TotalDLoss] \<and>
   dropWhile (\<lambda>e. e \<noteq> ClipGradNorm ShortDiscriminator 1) update_events =
     [ClipGradNorm ShortDiscriminator 1, ClipGradNorm LongDiscriminator 1,
      OptimizerStep GeneratorOptimizer]"
  by (simp add: update_events_def)

subsection \<open>C8: defaults of the command line\<close>

text \<open>
  C8: whatever \<^verbatim>\<open>str.upper()\<close> computes, the dataset and file type handed to the
  inference run are always supported values. A value whose upper-case form is a
  supported name is used in that form without a warning; any other value is replaced
  by the default (DFKI, ONNX) and the warning is printed; an option that is not given
  takes the default. The selection has no failing branch. Since \<^verbatim>\<open>str.upper()\<close> maps
  ASCII text letter by letter, an ASCII value is accepted exactly when it is a
  supported name in some letter case.
\<close>

theorem main_args_fallback:
  "fst (main_args upper a) \<in> {lit ''DFKI'', lit ''LAFAN''} \<and>
   fst (snd (main_args upper a)) \<in> {lit ''ONNX'', lit ''PKL''} \<and>
   (\<forall>v. Dataset a = Some v \<longrightarrow>
      (if upper v = lit ''DFKI'' \<or> upper v = lit ''LAFAN''
       then fst (main_args upper a) = upper v \<and>
            lit ''Currently: Only LAFAN and DFKI Datasets are supported. Using Default: DFKI''
              \<notin> set (snd (snd (main_args upper a)))
       else fst (main_args upper a) = lit ''DFKI'' \<and>
            lit ''Currently: Only LAFAN and DFKI Datasets are supported. Using Default: DFKI''
              \<in> set (snd (snd (main_args upper a))))) \<and>
   (\<forall>v. Filetype a = Some v \<longrightarrow>
      (if upper v = lit ''ONNX'' \<or> upper v = lit ''PKL''
       then fst (snd (main_args upper a)) = upper v \<and>
            lit ''Filetype not supported. Using default ONNX''
              \<notin> set (snd (snd (main_args upper a)))
       else fst (snd (main_args upper a)) = lit ''ONNX'' \<and>
            lit ''Filetype not supported. Using default ONNX''
              \<in> set (snd (snd (main_args upper a))))) \<and>
   (Dataset a = None \<longrightarrow> fst (main_args upper a) = lit ''DFKI'') \<and>
   (Filetype a = None \<longrightarrow> fst (snd (main_args upper a)) = lit ''ONNX'') \<and>
   (upper_on_ascii upper \<longrightarrow>
      (\<forall>v. Dataset a = Some v \<and> is_ascii v \<longrightarrow>
         (if ascii_upper v \<in> {lit ''DFKI'', lit ''LAFAN''}
          then fst (main_args upper a) = ascii_upper v \<and>
               lit ''Currently: Only LAFAN and DFKI Datasets are supported. Using Default: DFKI''
                 \<notin> set (snd (snd (main_args upper a)))
          else fst (main_args upper a) = lit ''DFKI'' \<and>
               lit ''Currently: Only LAFAN and DFKI Datasets are supported. Using Default: DFKI''
                 \<in> set (snd (snd (main_args upper a))))) \<and>
      (\<forall>v. Filetype a = Some v \<and> is_ascii v \<longrightarrow>
         (if ascii_upper v \<in> {lit ''ONNX'', lit ''PKL''}
          then fst (snd (main_args upper a)) = ascii_upper v \<and>
               lit ''Filetype not supported. Using default ONNX''
                 \<notin> set (snd (snd (main_args upper a)))
          else fst (snd (main_args upper a)) = lit ''ONNX'' \<and>
               lit ''Filetype not supported. Using default ONNX''
                 \<in> set (snd (snd (main_args upper a))))))"
proof -
  have neq:
    "lit ''Currently: Only LAFAN and DFKI Datasets are supported. Using Default: DFKI'' \<noteq>
       lit ''Filetype not supported. Using default ONNX''"
    "\<And>d f. lit ''Currently: Only LAFAN and DFKI Datasets are supported. Using Default: DFKI'' \<noteq>
       lit ''Using dataset  '' @ d @ lit ''  and filetype  '' @ f"
    "\<And>d f. lit ''Filetype not supported. Using default ONNX'' \<noteq>
       lit ''Using dataset  '' @ d @ lit ''  and filetype  '' @ f"
    by (simp_all add: lit_def)
  have general:
    "fst (main_args upper a) \<in> {lit ''DFKI'', lit ''LAFAN''}"
    "fst (snd (main_args upper a)) \<in> {lit ''ONNX'', lit ''PKL''}"
    "\<And>v. Dataset a = Some v \<Longrightarrow>
      (if upper v = lit ''DFKI'' \<or> upper v = lit ''LAFAN''
       then fst (main_args upper a) = upper v \<and>
            lit ''Currently: Only LAFAN and DFKI Datasets are supported. Using Default: DFKI''
              \<notin> set (snd (snd (main_args upper a)))
       else fst (main_args upper a) = lit ''DFKI'' \<and>
            lit ''Currently: Only LAFAN and DFKI Datasets are supported. Using Default: DFKI''
              \<in> set (snd (snd (main_args upper a))))"
    "\<And>v. Filetype a = Some v \<Longrightarrow>
      (if upper v = lit ''ONNX'' \<or> upper v = lit ''PKL''
       then fst (snd (main_args upper a)) = upper v \<and>
            lit ''Filetype not supported. Using default ONNX''
              \<notin> set (snd (snd (main_args upper a)))
       else fst (snd (main_args upper a)) = lit ''ONNX'' \<and>
            lit ''Filetype not supported. Using default ONNX''
              \<in> set (snd (snd (main_args upper a))))"
    "Dataset a = None \<Longrightarrow> fst (main_args upper a) = lit ''DFKI''"
    "Filetype a = None \<Longrightarrow> fst (snd (main_args upper a)) = lit ''ONNX''"
    using neq
    by (auto simp: main_args_def select_dataset_def select_filetype_def Let_def
             split: option.splits prod.splits if_splits)
  have ascii: "upper v = ascii_upper v" if "upper_on_ascii upper" "is_ascii v" for v
    using that by (simp add: upper_on_ascii_def)
  have ascii_dataset:
    "if ascii_upper v \<in> {lit ''DFKI'', lit ''LAFAN''}
     then fst (main_args upper a) = ascii_upper v \<and>
          lit ''Currently: Only LAFAN and DFKI Datasets are supported. Using Default: DFKI''
            \<notin> set (snd (snd (main_args upper a)))
     else fst (main_args upper a) = lit ''DFKI'' \<and>
          lit ''Currently: Only LAFAN and DFKI Datasets are supported. Using Default: DFKI''
            \<in> set (snd (snd (main_args upper a)))"
    if "upper_on_ascii upper" "Dataset a = Some v \<and> is_ascii v" for v
    using general(3) [of v] ascii [of v] that by (simp split: if_splits)
  have ascii_filetype:
    "if ascii_upper v \<in> {lit ''ONNX'', lit ''PKL''}
     then fst (snd (main_args upper a)) = ascii_upper v \<and>
          lit ''Filetype not supported. Using default ONNX''
            \<notin> set (snd (snd (main_args upper a)))
     else fst (snd (main_args upper a)) = lit ''ONNX'' \<and>
          lit ''Filetype not supported. Using default ONNX''
            \<in> set (snd (snd (main_args upper a)))"
    if "upper_on_ascii upper" "Filetype a = Some v \<and> is_ascii v" for v
    using general(4) [of v] ascii [of v] that by (simp split: if_splits)
  show ?thesis
    by (intro conjI allI impI general ascii_dataset ascii_filetype) simp_all
qed

theorem main_args_fallback_witness:
  "upper_on_ascii example_upper \<and>
   example_upper (lit ''lafan'') = lit ''LAFAN'' \<and> example_upper (lit ''csv'') = lit ''CSV'' \<and>
   main_args example_upper \<lparr>Dataset = Some (lit ''lafan''), Filetype = Some (lit ''csv'')\<rparr> =
     (lit ''LAFAN'', lit ''ONNX'',
      [lit ''Filetype not supported. Using default ONNX'',
       lit ''Using dataset  LAFAN  and filetype  ONNX'']) \<and>
   main_args example_upper \<lparr>Dataset = None, Filetype = Some (lit ''pKl'')\<rparr> =
     (lit ''DFKI'', lit ''PKL'', [lit ''Using dataset  DFKI  and filetype  PKL'']) \<and>
   example_upper [100, 102, 107, 305] = lit ''DFKI'' \<and>
   main_args example_upper \<lparr>Dataset = Some [100, 102, 107, 305], Filetype = None\<rparr> =
     (lit ''DFKI'', lit ''ONNX'', [lit ''Using dataset  DFKI  and filetype  ONNX''])"
proof -
  have asc: "upper_on_ascii example_upper"
    unfolding upper_on_ascii_def example_upper_def is_ascii_def
  proof (intro allI impI)
    fix s :: str
    assume "list_all (\<lambda>c. c < 128) s"
    then have "map (\<lambda>c. if c = 305 then 73 else c) s = s"
      by (induction s) auto
    then show "ascii_upper (map (\<lambda>c. if c = 305 then 73 else c) s) = ascii_upper s"
      by simp
  qed
  have u: "example_upper (lit ''lafan'') = lit ''LAFAN''"
    "example_upper (lit ''csv'') = lit ''CSV''"
    "example_upper (lit ''pKl'') = lit ''PKL''"
    "example_upper [100, 102, 107, 305] = lit ''DFKI''"
    by (simp_all add: example_upper_def ascii_upper_def lit_def)
  have a: "is_ascii (lit ''lafan'')" "is_ascii (lit ''csv'')" "is_ascii (lit ''pKl'')"
    by (simp_all add: is_ascii_def lit_def)
  note t1 = main_args_fallback [of example_upper
    "\<lparr>Dataset = Some (lit ''lafan''), Filetype = Some (lit ''csv'')\<rparr>"]
  note t2 = main_args_fallback [of example_upper
    "\<lparr>Dataset = None, Filetype = Some (lit ''pKl'')\<rparr>"]
  note t3 = main_args_fallback [of example_upper
    "\<lparr>Dataset = Some [100, 102, 107, 305], Filetype = None\<rparr>"]
  have m1: "main_args example_upper
      \<lparr>Dataset = Some (lit ''lafan''), Filetype = Some (lit ''csv'')\<rparr> =
     (lit ''LAFAN'', lit ''ONNX'',
      [lit ''Filetype not supported. Using default ONNX'',
       lit ''Using dataset  LAFAN  and filetype  ONNX''])"
    using t1 asc a
    by (simp add: main_args_def select_dataset_def select_filetype_def u) (simp add: lit_def)
  have m2: "main_args example_upper \<lparr>Dataset = None, Filetype = Some (lit ''pKl'')\<rparr> =
     (lit ''DFKI'', lit ''PKL'', [lit ''Using dataset  DFKI  and filetype  PKL''])"
    using t2 asc a
    by (simp add: main_args_def select_dataset_def select_filetype_def u) (simp add: lit_def)
  have m3: "main_args example_upper \<lparr>Dataset = Some [100, 102, 107, 305], Filetype = None\<rparr> =
     (lit ''DFKI'', lit ''ONNX'', [lit ''Using dataset  DFKI  and filetype  ONNX''])"
    using t3 asc
    by (simp add: main_args_def select_dataset_def select_filetype_def u) (simp add: lit_def)
  show ?thesis using asc u m1 m2 m3 by simp
qed

subsection \<open>C10: frame indices stay in bounds\<close>

text \<open>
  C10: when every per-frame field of the batch holds at least \<open>training_frames + 11\<close>
  frames, no read of the training rollout leaves the time axis, so every index it
  reads is at most \<open>training_frames + 10\<close>; when every field holds at least
  \<open>test_frames + 9\<close> frames, no read of the inference rollout leaves the time axis,
  so every index it reads is at most \<open>test_frames + 8\<close>.
\<close>

theorem rollout_frames_in_bounds:
  "(frames_at_least (training_frames cfg + 11) b \<longrightarrow>
      train_rollout m cfg b noise s \<noteq> Inl (IndexError FrameAxis)) \<and>
   (frames_at_least (test_frames cfg + 9) b \<longrightarrow>
      test_rollout m ses cfg ft b u \<noteq> Inl (IndexError FrameAxis))"
proof (intro conjI impI)
  assume "frames_at_least (training_frames cfg + 11) b"
  then show "train_rollout m cfg b noise s \<noteq> Inl (IndexError FrameAxis)"
    unfolding train_rollout_def
    by (intro for_range_no_error [where I = "\<lambda>t s. True"] train_step_frames) simp_all
next
  assume "frames_at_least (test_frames cfg + 9) b"
  then show "test_rollout m ses cfg ft b u \<noteq> Inl (IndexError FrameAxis)"
    unfolding test_rollout_def
    by (intro for_range_no_error [where I = "\<lambda>t s. True"] test_step_frames) simp_all
qed

theorem rollout_frames_in_bounds_witness:
  "frames_at_least (training_frames (example_config 2 2) + 11) (example_batch 2 13) \<and>
   train_rollout example_modules (example_config 2 2) (example_batch 2 13) (example_noise 2)
     example_train_state \<noteq> Inl (IndexError FrameAxis) \<and>
   train_rollout example_modules (example_config 2 2) (example_batch 2 12) (example_noise 2)
     example_train_state = Inl (IndexError FrameAxis) \<and>
   frames_at_least (test_frames (example_config 2 2) + 9) (example_batch 2 11) \<and>
   test_rollout example_modules example_sessions (example_config 2 2) ''PKL'' (example_batch 2 11)
     (example_test_state\<lparr>pose_stack := [[[1, 2, 3], [1, 3, 3]]]\<rparr>) \<noteq> Inl (IndexError FrameAxis) \<and>
   test_rollout example_modules example_sessions (example_config 2 2) ''PKL'' (example_batch 2 10)
     (example_test_state\<lparr>pose_stack := [[[1, 2, 3], [1, 3, 3]]]\<rparr>) = Inl (IndexError FrameAxis)"
proof -
  have h1: "frames_at_least (training_frames (example_config 2 2) + 11) (example_batch 2 13)"
    by code_simp
  have h2: "frames_at_least (test_frames (example_config 2 2) + 9) (example_batch 2 11)"
    by code_simp
  have e1: "train_rollout example_modules (example_config 2 2) (example_batch 2 12)
     (example_noise 2) example_train_state = Inl (IndexError FrameAxis)"
    by code_simp
  have e2: "test_rollout example_modules example_sessions (example_config 2 2) ''PKL''
     (example_batch 2 10) (example_test_state\<lparr>pose_stack := [[[1, 2, 3], [1, 3, 3]]]\<rparr>)
       = Inl (IndexError FrameAxis)"
    by code_simp
  show ?thesis
    using h1 h2 e1 e2
      rollout_frames_in_bounds [of "example_config 2 2" "example_batch 2 13" example_modules
        "example_noise 2" example_train_state]
      rollout_frames_in_bounds [of "example_config 2 2" "example_batch 2 11" example_modules
        _ _ example_sessions "''PKL''" "example_test_state\<lparr>pose_stack := [[[1, 2, 3], [1, 3, 3]]]\<rparr>"]
    by simp
qed

subsection \<open>C9: the pose buffer of the inference loop\<close>

text \<open>
  C9: a timestep that starts with one pose in the buffer never fails on the pop or on
  the assertion that the buffer is empty after it; it draws the buffered pose as the
  in-between pose and leaves exactly one pose, the prediction of this timestep, in the
  buffer. For a whole window, which starts with the ground-truth pose of frame 9 in
  the buffer, neither failure occurs, and the in-between poses drawn are the start
  pose followed by the predictions of all timesteps but the last: the drawn pose lags
  the prediction by one frame, and the last prediction stays in the buffer.
\<close>

theorem pose_stack_holds_one_pose:
  "(length (pose_stack u) = 1 \<longrightarrow>
      test_step m ses cfg ft b t u \<noteq> Inl (AssertionError PoseStackEmpty) \<and>
      test_step m ses cfg ft b t u \<noteq> Inl (IndexError PoseStackPop) \<and>
      (\<forall>u'. test_step m ses cfg ft b t u = Inr u' \<longrightarrow>
         length (pose_stack u') = 1 \<and>
         in_between_plots (events u') = in_between_plots (events u) @ pose_stack u \<and>
         pose_stack u' =
           predicted_pose m (inference_batch_index cfg) (last (fk_calls (events u'))))) \<and>
   test_batch m ses cfg ft i b s \<noteq> Inl (AssertionError PoseStackEmpty) \<and>
   test_batch m ses cfg ft i b s \<noteq> Inl (IndexError PoseStackPop) \<and>
   (\<forall>s' first. test_batch m ses cfg ft i b s = Inr s' \<longrightarrow>
      sample_frame (inference_batch_index cfg) 9 (global_pos b) = Inr first \<longrightarrow>
      (\<exists>new. events s' = events s @ new \<and>
         length (concat (map (predicted_pose m (inference_batch_index cfg)) (fk_calls new)))
           = test_frames cfg \<and>
         in_between_plots new =
           take (test_frames cfg)
             (first # concat (map (predicted_pose m (inference_batch_index cfg)) (fk_calls new))) \<and>
         pose_stack s' =
           [last (first # concat (map (predicted_pose m (inference_batch_index cfg))
                                   (fk_calls new)))]))"
proof (intro conjI impI allI)
  assume one: "length (pose_stack u) = 1"
  show "test_step m ses cfg ft b t u \<noteq> Inl (AssertionError PoseStackEmpty)"
    and "test_step m ses cfg ft b t u \<noteq> Inl (IndexError PoseStackPop)"
    using one by (rule test_step_pose_stack_safe)+
  fix u' assume st: "test_step m ses cfg ft b t u = Inr u'"
  from st obtain p pushed q r where p: "pose_stack u = [p]" and p': "pose_stack u' = [pushed]"
    and pl': "in_between_plots (events u') = in_between_plots (events u) @ [p]"
    and fk': "fk_calls (events u') = fk_calls (events u) @ [(q, r)]"
    and pp: "predicted_pose m (inference_batch_index cfg) (q, r) = [pushed]"
    by (rule test_step_pose_stack)
  show "length (pose_stack u') = 1" using p' by simp
  show "in_between_plots (events u') = in_between_plots (events u) @ pose_stack u"
    using pl' p by simp
  show "pose_stack u' = predicted_pose m (inference_batch_index cfg) (last (fk_calls (events u')))"
    using p' fk' pp by simp
next
  show "test_batch m ses cfg ft i b s \<noteq> Inl (AssertionError PoseStackEmpty)"
    by (auto simp: test_batch_def bind_res_eq_Inl Let_def test_rollout_pose_stack_safe
             dest: sample_frame_error)
  show "test_batch m ses cfg ft i b s \<noteq> Inl (IndexError PoseStackPop)"
    by (auto simp: test_batch_def bind_res_eq_Inl Let_def test_rollout_pose_stack_safe
             dest: sample_frame_error)
next
  fix s' first
  let ?i = "inference_batch_index cfg"
  assume run: "test_batch m ses cfg ft i b s = Inr s'"
    and first: "sample_frame ?i 9 (global_pos b) = Inr first"
  define s1 where "s1 = (if ft = ''PKL''
       then s\<lparr>pose_stack := [first], hidden := init_hidden m (current_batch_size b),
               events := events s @ [InitHidden (current_batch_size b)]\<rparr>
       else s\<lparr>pose_stack := [first]\<rparr>)"
  from run first obtain s2 where roll: "test_rollout m ses cfg ft b s1 = Inr s2"
    and s': "s' = s2\<lparr>events := events s2 @ [SaveGif i]\<rparr>"
    by (auto simp: test_batch_def bind_res_eq_Inr Let_def s1_def split: if_splits)
  have init: "lagging m ?i first (events s1) 0 s1"
    by (simp add: lagging_def s1_def)
  have "lagging m ?i first (events s1) (test_frames cfg) s2"
    using roll [unfolded test_rollout_def] init
    by (rule for_range_invariant) (rule lagging_step)
  then obtain new where ev: "events s2 = events s1 @ new"
    and len: "length (concat (map (predicted_pose m ?i) (fk_calls new))) = test_frames cfg"
    and pl: "in_between_plots new =
       take (test_frames cfg) (first # concat (map (predicted_pose m ?i) (fk_calls new)))"
    and ps: "pose_stack s2 = [last (first # concat (map (predicted_pose m ?i) (fk_calls new)))]"
    unfolding lagging_def by blast
  obtain pre where pre: "events s1 = events s @ pre" and prefk: "fk_calls pre = []"
    and prepl: "in_between_plots pre = []"
    by (cases "ft = ''PKL''") (auto simp: s1_def)
  let ?new = "pre @ new @ [SaveGif i]"
  have "events s' = events s @ ?new" using s' ev pre by simp
  moreover have "fk_calls ?new = fk_calls new" "in_between_plots ?new = in_between_plots new"
    using prefk prepl by simp_all
  ultimately show "\<exists>new. events s' = events s @ new \<and>
         length (concat (map (predicted_pose m ?i) (fk_calls new))) = test_frames cfg \<and>
         in_between_plots new =
           take (test_frames cfg) (first # concat (map (predicted_pose m ?i) (fk_calls new))) \<and>
         pose_stack s' = [last (first # concat (map (predicted_pose m ?i) (fk_calls new)))]"
    using len pl ps s' by (intro exI [of _ ?new]) simp
qed

theorem pose_stack_holds_one_pose_witness:
  "length (pose_stack (example_test_state\<lparr>pose_stack := [[[1, 2, 3], [1, 3, 3]]]\<rparr>)) = 1 \<and>
   sample_frame (inference_batch_index (example_config 2 2)) 9
     (global_pos (example_batch 2 11)) = Inr [[9, 2, 3], [9, 3, 3]] \<and>
   map_sum id pose_stack
     (test_step example_modules example_sessions (example_config 2 2) ''ONNX''
        (example_batch 2 11) 0 (example_test_state\<lparr>pose_stack := [[[1, 2, 3], [1, 3, 3]]]\<rparr>))
     = Inr [[[9, 2, 3]]] \<and>
   test_batch example_modules example_sessions (example_config 2 2) ''ONNX'' 0
     (example_batch 2 11) example_test_state \<noteq> Inl (AssertionError PoseStackEmpty) \<and>
   map_sum id (\<lambda>s. (in_between_plots (events s), pose_stack s))
     (test_batch example_modules example_sessions (example_config 2 2) ''ONNX'' 0
        (example_batch 2 11) example_test_state)
     = Inr ([[[9, 2, 3], [9, 3, 3]], [[9, 2, 3]]], [[[9, 2, 3]]])"
proof -
  have a: "length (pose_stack (example_test_state\<lparr>pose_stack := [[[1, 2, 3], [1, 3, 3]]]\<rparr>)) = 1"
    by code_simp
  have b: "sample_frame (inference_batch_index (example_config 2 2)) 9
     (global_pos (example_batch 2 11)) = Inr [[9, 2, 3], [9, 3, 3]]"
    by code_simp
  have c: "map_sum id pose_stack
     (test_step example_modules example_sessions (example_config 2 2) ''ONNX''
        (example_batch 2 11) 0 (example_test_state\<lparr>pose_stack := [[[1, 2, 3], [1, 3, 3]]]\<rparr>))
     = Inr [[[9, 2, 3]]]"
    by code_simp
  have d: "map_sum id (\<lambda>s. (in_between_plots (events s), pose_stack s))
     (test_batch example_modules example_sessions (example_config 2 2) ''ONNX'' 0
        (example_batch 2 11) example_test_state)
     = Inr ([[[9, 2, 3], [9, 3, 3]], [[9, 2, 3]]], [[[9, 2, 3]]])"
    by code_simp
  show ?thesis
    using a b c d
      pose_stack_holds_one_pose [of "example_test_state\<lparr>pose_stack := [[[1, 2, 3], [1, 3, 3]]]\<rparr>"
        example_modules example_sessions "example_config 2 2" "''ONNX''" "example_batch 2 11" 0 0
        example_test_state]
    by simp
qed

subsection \<open>C1: the rollout of a window of one sample\<close>

text \<open>
  C1 says that every rollout takes its inputs from the ground truth at the first
  timestep, from its own predictions afterwards, and performs exactly the configured
  number of timesteps. With a batch size of one and two frames the inference rollout
  does not: \<^verbatim>\<open>root_pred.squeeze()\<close> drops the batch axis of the first prediction, which
  then has shape (3) instead of (1, 3), and the shape assertion of the second
  timestep fails, for both file types. The training rollout keeps the batch axis of a
  batch of one and performs both timesteps on the same data, and the inference rollout
  performs both on a batch of two.
\<close>

theorem inference_batch_of_one_fails:
  "map_sum id (\<lambda>s. map_option (shape \<circ> root_pred) (carried s))
     (test_step example_modules example_sessions (example_config 2 1) ''PKL''
        (example_batch 1 11) 0 (example_test_state\<lparr>pose_stack := [[[1, 2, 3], [1, 3, 3]]]\<rparr>))
     = Inr (Some [3]) \<and>
   shape (of_mat (root_p_offset (example_batch 1 11))) = [1, 3] \<and>
   test_batch example_modules example_sessions (example_config 2 1) ''PKL'' 0
     (example_batch 1 11) example_test_state = Inl (AssertionError RootShape) \<and>
   test_batch example_modules example_sessions (example_config 2 1) ''ONNX'' 0
     (example_batch 1 11) example_test_state = Inl (AssertionError RootShape) \<and>
   map_sum id (\<lambda>s. (map shape (root_pred_list s), core_calls (events s)))
     (train_rollout example_modules (example_config 2 1) (example_batch 1 13) (example_noise 1)
        example_train_state)
     = Inr ([[1, 3], [1, 3]], [LstmForward, LstmForward]) \<and>
   map_sum id (\<lambda>s. (map (shape \<circ> snd) (fk_calls (events s)), core_calls (events s)))
     (test_batch example_modules example_sessions (example_config 2 2) ''ONNX'' 0
        (example_batch 2 11) example_test_state)
     = Inr ([[2, 1, 3], [2, 1, 3]], [LstmRun, LstmRun])"
  by code_simp

subsection \<open>C6: the predicted quaternions are normalised\<close>

text \<open>
  C6 says that every predicted quaternion appended to the output has norm one within
  the tolerance of the arithmetic. No line guards the division: a predicted quaternion
  that is all zeros has norm zero and is divided by it. With a decoder whose residual
  cancels the first quaternion of the input, the first quaternion appended by the
  training step holds four entries that are not finite numbers.
\<close>

theorem zero_quaternion_not_normalized:
  "map_sum id (map (take 4 \<circ> leaves) \<circ> local_q_pred_list)
     (train_step cancelling_modules (example_config 1 1) (example_batch 1 12) (example_noise 1) 0
        example_train_state) = Inr [[None, None, None, None]]"
  by code_simp

text \<open>
  C6 as amended: in both loops the tensor of quaternions a timestep hands on (appended
  to \<open>local_q_pred_list\<close> in training, passed to the forward kinematics in inference)
  holds exactly the quaternions of \<open>local_q_pred\<close>, the residual plus the previous
  quaternions, each divided entry by entry by the norm the tensor library computes for
  it; they have four entries. Whatever the arithmetic of the library is, a quaternion
  on which it is accurate to a relative tolerance \<open>e < 1\<close> is handed on with finite
  entries and a norm between \<open>(1 - e) / (1 + e)\<close> and \<open>(1 + e) / (1 - e)\<close>. Nothing
  is promised for the others: the quaternion of zeros, and the quaternions whose
  squared entries underflow or overflow.
\<close>

theorem predicted_quaternions_normalized:
  "(\<forall>s'. train_step m cfg b noise t s = Inr s' \<longrightarrow>
      (\<exists>x p. local_q_pred_list s' = local_q_pred_list s @ [x] \<and> carried s' = Some p \<and>
         leaves x = concat (map (quat_normalize m) (quats_of (kept (local_q_pred p)))))) \<and>
   (\<forall>u'. test_step m ses cfg ft b t u = Inr u' \<longrightarrow>
      (\<exists>q r p. last (fk_calls (events u')) = (q, r) \<and> carried u' = Some p \<and>
         leaves q = concat (map (quat_normalize m) (quats_of (local_q_pred p))))) \<and>
   list_all (\<lambda>q. length q = 4) (quats_of c) \<and>
   (0 \<le> e \<and> e < 1 \<and> accurate m e q \<longrightarrow> unit_within e (quat_normalize m q))"
proof (intro conjI allI impI)
  fix s' assume "train_step m cfg b noise t s = Inr s'"
  then show "\<exists>x p. local_q_pred_list s' = local_q_pred_list s @ [x] \<and> carried s' = Some p \<and>
         leaves x = concat (map (quat_normalize m) (quats_of (kept (local_q_pred p))))"
    by (rule train_step_quaternions) blast
next
  fix u' assume "test_step m ses cfg ft b t u = Inr u'"
  then show "\<exists>q r p. last (fk_calls (events u')) = (q, r) \<and> carried u' = Some p \<and>
         leaves q = concat (map (quat_normalize m) (quats_of (local_q_pred p)))"
    by (rule test_step_quaternions) blast
next
  assume "0 \<le> e \<and> e < 1 \<and> accurate m e q"
  then show "unit_within e (quat_normalize m q)"
    by (intro accurate_unit_within) simp_all
qed (simp add: quats_of_length)

theorem predicted_quaternions_normalized_witness:
  "accurate example_modules (1 / 1000) [3, 0, 4, 0] \<and>
   quat_normalize example_modules [3, 0, 4, 0] = [Some (3 / 5), Some 0, Some (4 / 5), Some 0] \<and>
   unit_within (1 / 1000) (quat_normalize example_modules [3, 0, 4, 0]) \<and>
   accurate binary32_modules (1 / 2 ^ 23) [3, 0, 4, 0] \<and>
   quat_normalize binary32_modules [3, 0, 4, 0]
     = [Some (10066330 / 16777216), Some 0, Some (13421773 / 16777216), Some 0] \<and>
   unit_within (1 / 2 ^ 23) (quat_normalize binary32_modules [3, 0, 4, 0]) \<and>
   \<not> accurate binary32_modules (1 / 2 ^ 23) [1 / 2 ^ 100, 0, 0, 0] \<and>
   quat_normalize binary32_modules [1 / 2 ^ 100, 0, 0, 0] = [None, None, None, None] \<and>
   \<not> accurate binary32_modules (1 / 2 ^ 23) [2 ^ 70, 0, 0, 0] \<and>
   quat_normalize binary32_modules [2 ^ 70, 0, 0, 0] = [Some 0, Some 0, Some 0, Some 0] \<and>
   map_sum id (map (map (\<lambda>v. \<not> Option.is_none v) \<circ> leaves) \<circ> local_q_pred_list)
     (train_step example_modules (example_config 1 1) (example_batch 1 12) (example_noise 1) 0
        example_train_state)
     = Inr [[True, True, True, True, True, True, True, True]] \<and>
   map_sum id (\<lambda>u. map (\<lambda>v. \<not> Option.is_none v) (leaves (fst (last (fk_calls (events u))))))
     (test_step example_modules example_sessions (example_config 1 1) ''ONNX''
        (example_batch 1 12) 0 (example_test_state\<lparr>pose_stack := [[[1, 2, 3], [1, 3, 3]]]\<rparr>))
     = Inr [True, True, True, True, True, True, True, True]"
proof -
  note n = l2_norm_values(1)
  have acc: "accurate example_modules (1 / 1000) [3, 0, 4, 0]"
    by (simp add: accurate_def example_modules_def exact_norm_def exact_div_def n)
  have q: "quat_normalize example_modules [3, 0, 4, 0]
             = [Some (3 / 5), Some 0, Some (4 / 5), Some 0]"
    by (simp add: quat_normalize_def example_modules_def exact_norm_def exact_div_def n)
  have b32:
    "accurate binary32_modules (1 / 2 ^ 23) [3, 0, 4, 0]"
    "quat_normalize binary32_modules [3, 0, 4, 0]
       = [Some (10066330 / 16777216), Some 0, Some (13421773 / 16777216), Some 0]"
    "\<not> accurate binary32_modules (1 / 2 ^ 23) [1 / 2 ^ 100, 0, 0, 0]"
    "quat_normalize binary32_modules [1 / 2 ^ 100, 0, 0, 0] = [None, None, None, None]"
    "\<not> accurate binary32_modules (1 / 2 ^ 23) [2 ^ 70, 0, 0, 0]"
    "quat_normalize binary32_modules [2 ^ 70, 0, 0, 0] = [Some 0, Some 0, Some 0, Some 0]"
    using binary32_runs binary32_values l2_norm_values
    by (simp_all add: accurate_def quat_normalize_def binary32_modules_def example_modules_def
          binary32_div_def)
  have a: "map_sum id (map (map (\<lambda>v. \<not> Option.is_none v) \<circ> leaves) \<circ> local_q_pred_list)
     (train_step example_modules (example_config 1 1) (example_batch 1 12) (example_noise 1) 0
        example_train_state)
     = Inr [[True, True, True, True, True, True, True, True]]"
    by code_simp
  have b: "map_sum id (\<lambda>u. map (\<lambda>v. \<not> Option.is_none v) (leaves (fst (last (fk_calls (events u))))))
     (test_step example_modules example_sessions (example_config 1 1) ''ONNX''
        (example_batch 1 12) 0 (example_test_state\<lparr>pose_stack := [[[1, 2, 3], [1, 3, 3]]]\<rparr>))
     = Inr [True, True, True, True, True, True, True, True]"
    by code_simp
  have u: "unit_within (1 / 1000) (quat_normalize example_modules [3, 0, 4, 0])"
    using acc
      predicted_quaternions_normalized [of example_modules "example_config 1 1"
        "example_batch 1 12" "example_noise 1" 0 example_train_state example_sessions "''ONNX''"
        "example_test_state\<lparr>pose_stack := [[[1, 2, 3], [1, 3, 3]]]\<rparr>" "[]" "1 / 1000"
        "[3, 0, 4, 0]"]
    by simp
  have u32: "unit_within (1 / 2 ^ 23) (quat_normalize binary32_modules [3, 0, 4, 0])"
    using b32(1)
      predicted_quaternions_normalized [of binary32_modules "example_config 1 1"
        "example_batch 1 12" "example_noise 1" 0 example_train_state example_sessions "''ONNX''"
        "example_test_state\<lparr>pose_stack := [[[1, 2, 3], [1, 3, 3]]]\<rparr>" "[]" "1 / 2 ^ 23"
        "[3, 0, 4, 0]"]
    by simp
  show ?thesis
    using acc q u b32 u32 a b by (intro conjI)
qed

subsection \<open>C7: the decoder output is a residual\<close>



subsection \<open>C2: the hidden state at the start of a window\<close>

text \<open>
  C2 says that in training and in inference the hidden state of the recurrent core is
  reset through \<open>init_hidden\<close> before the first timestep of every window. An inference
  window run with the file type ONNX, the default of the command line, makes no such
  call: its calls on the recurrent core are the session runs of its timesteps, and the
  hidden state of the module, 7 at the start, is left as it was.
\<close>

theorem onnx_window_without_init_hidden:
  "map_sum id (\<lambda>s. (core_calls (events s), hidden s))
     (test_batch example_modules example_sessions (example_config 2 2) ''ONNX'' 0
        (example_batch 2 11) example_test_state)
     = Inr ([LstmRun, LstmRun], 7)"
  by code_simp

text \<open>
  C2 as amended: a training window and an inference window run with the file type PKL
  do not depend on the hidden state they find, and their first call on the recurrent
  core is \<open>init_hidden\<close> with the size of the batch, followed by one forward call per
  timestep; an inference window run with the file type ONNX never calls \<open>init_hidden\<close>,
  runs the session once per timestep and leaves the hidden state of the module
  untouched.
\<close>

theorem hidden_state_reset:
  "(\<forall>h. train_batch m cfg bn (s\<lparr>hidden := h\<rparr>) = train_batch m cfg bn s) \<and>
   (\<forall>s'. train_batch m cfg (b, noise) s = Inr s' \<longrightarrow>
      (\<exists>new. events s' = events s @ new \<and>
         core_calls new = InitHidden (current_batch_size b)
           # replicate (training_frames cfg) LstmForward)) \<and>
   (\<forall>h. test_batch m ses cfg ''PKL'' i b (u\<lparr>hidden := h\<rparr>) = test_batch m ses cfg ''PKL'' i b u) \<and>
   (\<forall>u'. test_batch m ses cfg ''PKL'' i b u = Inr u' \<longrightarrow>
      (\<exists>new. events u' = events u @ new \<and>
         core_calls new = InitHidden (current_batch_size b)
           # replicate (test_frames cfg) LstmForward)) \<and>
   (\<forall>u'. test_batch m ses cfg ''ONNX'' i b u = Inr u' \<longrightarrow>
      hidden u' = hidden u \<and>
      (\<exists>new. events u' = events u @ new \<and>
         core_calls new = replicate (test_frames cfg) LstmRun))"
proof (intro conjI allI impI)
  fix h show "train_batch m cfg bn (s\<lparr>hidden := h\<rparr>) = train_batch m cfg bn s"
    by (rule train_batch_hidden)
next
  fix s' assume "train_batch m cfg (b, noise) s = Inr s'"
  then obtain q r where "events s' = events s @ InitHidden (current_batch_size b)
           # replicate (training_frames cfg) LstmForward
           @ [ForwardKinematics q r] @ update_events"
    by (rule train_batch_events)
  then show "\<exists>new. events s' = events s @ new \<and>
         core_calls new = InitHidden (current_batch_size b)
           # replicate (training_frames cfg) LstmForward"
    by (intro exI [of _ "InitHidden (current_batch_size b)
           # replicate (training_frames cfg) LstmForward
           @ [ForwardKinematics q r] @ update_events"]) simp
next
  fix h
  show "test_batch m ses cfg ''PKL'' i b (u\<lparr>hidden := h\<rparr>) = test_batch m ses cfg ''PKL'' i b u"
    by (rule test_batch_hidden_pkl)
next
  fix u' assume "test_batch m ses cfg ''PKL'' i b u = Inr u'"
  then show "\<exists>new. events u' = events u @ new \<and>
         core_calls new = InitHidden (current_batch_size b)
           # replicate (test_frames cfg) LstmForward"
    by (rule test_batch_calls) auto
next
  fix u' assume run: "test_batch m ses cfg ''ONNX'' i b u = Inr u'"
  from run show "hidden u' = hidden u" by (rule test_batch_calls) auto
  from run show "\<exists>new. events u' = events u @ new \<and>
         core_calls new = replicate (test_frames cfg) LstmRun"
    by (rule test_batch_calls) auto
qed

theorem hidden_state_reset_witness:
  "train_batch example_modules (example_config 2 2) (example_batch 2 13, example_noise 2)
     (example_train_state\<lparr>hidden := 99\<rparr>)
     = train_batch example_modules (example_config 2 2) (example_batch 2 13, example_noise 2)
         example_train_state \<and>
   map_sum id (\<lambda>s. (core_calls (events s), hidden s))
     (train_batch example_modules (example_config 2 2) (example_batch 2 13, example_noise 2)
        example_train_state)
     = Inr ([InitHidden 2, LstmForward, LstmForward], 2) \<and>
   map_sum id (\<lambda>s. (core_calls (events s), hidden s))
     (test_batch example_modules example_sessions (example_config 2 2) ''PKL'' 1
        (example_batch 2 11) example_test_state)
     = Inr ([InitHidden 2, LstmForward, LstmForward], 2) \<and>
   map_sum id (\<lambda>s. (core_calls (events s), hidden s))
     (test_batch example_modules example_sessions (example_config 2 2) ''ONNX'' 1
        (example_batch 2 11) example_test_state)
     = Inr ([LstmRun, LstmRun], 7)"
proof -
  have a: "map_sum id (\<lambda>s. (core_calls (events s), hidden s))
     (train_batch example_modules (example_config 2 2) (example_batch 2 13, example_noise 2)
        example_train_state)
     = Inr ([InitHidden 2, LstmForward, LstmForward], 2)"
    by code_simp
  have b: "map_sum id (\<lambda>s. (core_calls (events s), hidden s))
     (test_batch example_modules example_sessions (example_config 2 2) ''PKL'' 1
        (example_batch 2 11) example_test_state)
     = Inr ([InitHidden 2, LstmForward, LstmForward], 2)"
    by code_simp
  have c: "map_sum id (\<lambda>s. (core_calls (events s), hidden s))
     (test_batch example_modules example_sessions (example_config 2 2) ''ONNX'' 1
        (example_batch 2 11) example_test_state)
     = Inr ([LstmRun, LstmRun], 7)"
    by code_simp
  show ?thesis
    using a b c
      hidden_state_reset [of example_modules "example_config 2 2"
        "(example_batch 2 13, example_noise 2)" example_train_state "example_batch 2 11"
        "example_noise 2" example_sessions 1 example_test_state]
    by simp
qed

subsection \<open>C5: the calls of the forward kinematics\<close>

text \<open>
  C5 says that in both loops the forward kinematics is called once per window, on all
  timesteps at once. An inference window of three frames calls it three times, each
  time on tensors whose time axis has size one.
\<close>

theorem inference_calls_forward_kinematics_per_timestep:
  "map_sum id (\<lambda>s. map (shape \<circ> snd) (fk_calls (events s)))
     (test_batch example_modules example_sessions (example_config 3 2) ''ONNX'' 0
        (example_batch 2 12) example_test_state)
     = Inr [[2, 1, 3], [2, 1, 3], [2, 1, 3]]"
  by code_simp

text \<open>
  C5 as amended: a training window calls the forward kinematics exactly once, after
  the last timestep of the rollout, on the predictions of all \<open>training_frames\<close>
  timesteps stacked along the time axis; an inference window calls it once in every
  timestep, \<open>test_frames\<close> times in all, each time on the prediction of that timestep
  alone, with a time axis of size one.
\<close>

theorem forward_kinematics_calls:
  "(\<forall>s'. train_batch m cfg (b, noise) s = Inr s' \<longrightarrow>
      (\<exists>q r. stack1 (local_q_pred_list s') = Inr q \<and> stack1 (root_pred_list s') = Inr r \<and>
         length (local_q_pred_list s') = training_frames cfg \<and>
         length (root_pred_list s') = training_frames cfg \<and>
         events s' = events s @ InitHidden (current_batch_size b)
           # replicate (training_frames cfg) LstmForward
           @ [ForwardKinematics q r] @ update_events \<and>
         fk_calls (drop (length (events s)) (events s')) = [(q, r)])) \<and>
   (\<forall>u'. test_batch m ses cfg ft i b u = Inr u' \<longrightarrow>
      (\<exists>new. events u' = events u @ new \<and> length (fk_calls new) = test_frames cfg \<and>
         list_all (\<lambda>c. single_frame (fst c) \<and> single_frame (snd c)) (fk_calls new)))"
proof (intro conjI allI impI)
  fix s' assume "train_batch m cfg (b, noise) s = Inr s'"
  then show "\<exists>q r. stack1 (local_q_pred_list s') = Inr q \<and> stack1 (root_pred_list s') = Inr r \<and>
         length (local_q_pred_list s') = training_frames cfg \<and>
         length (root_pred_list s') = training_frames cfg \<and>
         events s' = events s @ InitHidden (current_batch_size b)
           # replicate (training_frames cfg) LstmForward
           @ [ForwardKinematics q r] @ update_events \<and>
         fk_calls (drop (length (events s)) (events s')) = [(q, r)]"
    by (rule train_batch_events) auto
next
  fix u' assume "test_batch m ses cfg ft i b u = Inr u'"
  then show "\<exists>new. events u' = events u @ new \<and> length (fk_calls new) = test_frames cfg \<and>
         list_all (\<lambda>c. single_frame (fst c) \<and> single_frame (snd c)) (fk_calls new)"
    by (rule test_batch_calls) blast
qed

theorem forward_kinematics_calls_witness:
  "map_sum id (\<lambda>s. (map (\<lambda>c. (shape (fst c), shape (snd c))) (fk_calls (events s)),
                    length (root_pred_list s)))
     (train_batch example_modules (example_config 2 2) (example_batch 2 13, example_noise 2)
        example_train_state)
     = Inr ([([2, 2, 2, 4], [2, 2, 3])], 2) \<and>
   map_sum id (\<lambda>s. map (\<lambda>c. (shape (fst c), shape (snd c))) (fk_calls (events s)))
     (test_batch example_modules example_sessions (example_config 2 2) ''PKL'' 0
        (example_batch 2 11) example_test_state)
     = Inr [([2, 1, 2, 4], [2, 1, 3]), ([2, 1, 2, 4], [2, 1, 3])]"
proof -
  have a: "map_sum id (\<lambda>s. (map (\<lambda>c. (shape (fst c), shape (snd c))) (fk_calls (events s)),
                    length (root_pred_list s)))
     (train_batch example_modules (example_config 2 2) (example_batch 2 13, example_noise 2)
        example_train_state)
     = Inr ([([2, 2, 2, 4], [2, 2, 3])], 2)"
    by code_simp
  have b: "map_sum id (\<lambda>s. map (\<lambda>c. (shape (fst c), shape (snd c))) (fk_calls (events s)))
     (test_batch example_modules example_sessions (example_config 2 2) ''PKL'' 0
        (example_batch 2 11) example_test_state)
     = Inr [([2, 1, 2, 4], [2, 1, 3]), ([2, 1, 2, 4], [2, 1, 3])]"
    by code_simp
  show ?thesis
    using a b
      forward_kinematics_calls [of example_modules "example_config 2 2" "example_batch 2 13"
        "example_noise 2" example_train_state example_sessions "''PKL''" 0 example_test_state]
    by simp
qed

subsection \<open>C4: a trailing batch of another size\<close>

text \<open>
  C4 says that both loops skip a trailing batch whose size is not the configured one.
  The training loop has no such check: with a configured batch size of two, an epoch
  of a batch of two samples followed by a batch of one sample runs both windows, the
  second with a hidden state initialised for one sample.
\<close>

theorem training_processes_trailing_batch:
  "batch_size (example_config 2 2) = 2 \<and>
   current_batch_size (example_batch 1 13) = 1 \<and>
   map_sum id (\<lambda>s. core_calls (events s))
     (train_epoch example_modules (example_config 2 2)
        [(example_batch 2 13, example_noise 2), (example_batch 1 13, example_noise 1)]
        example_train_state)
     = Inr [InitHidden 2, LstmForward, LstmForward, InitHidden 1, LstmForward, LstmForward]"
  by code_simp

text \<open>
  C4 as amended: the inference loop ends without an error at the first batch whose
  size is not the configured one, so a trailing batch of another size is not
  processed and the full batches before it are processed as if it were not there;
  the training loop processes every batch of the epoch, a trailing batch of another
  size included, as a window of its own size.
\<close>

theorem trailing_batch:
  "(list_all (\<lambda>b. current_batch_size b = batch_size cfg) full \<longrightarrow>
    current_batch_size trailing \<noteq> batch_size cfg \<longrightarrow>
    test_batches m ses cfg ft i (full @ trailing # rest) u = test_all m ses cfg ft i full u) \<and>
   train_epoch m cfg (bns @ [bn]) s = bind_res (train_epoch m cfg bns s) (train_batch m cfg bn) \<and>
   (\<forall>s' t'. train_epoch m cfg bns s = Inr s' \<longrightarrow> train_batch m cfg (b, noise) s' = Inr t' \<longrightarrow>
      train_epoch m cfg (bns @ [(b, noise)]) s = Inr t' \<and>
      (\<exists>new. events t' = events s' @ new \<and>
         core_calls new = InitHidden (current_batch_size b)
           # replicate (training_frames cfg) LstmForward \<and>
         length (fk_calls new) = 1))"
proof (intro conjI allI impI)
  assume "list_all (\<lambda>b. current_batch_size b = batch_size cfg) full"
    and "current_batch_size trailing \<noteq> batch_size cfg"
  then have full: "list_all (\<lambda>b. current_batch_size b = batch_size cfg) full"
    and stop: "test_batches m ses cfg ft k (trailing # rest) = Inr" for k
    by (auto intro!: ext)
  show "test_batches m ses cfg ft i (full @ trailing # rest) u = test_all m ses cfg ft i full u"
    by (simp add: test_batches_full [OF full] stop)
next
  show "train_epoch m cfg (bns @ [bn]) s = bind_res (train_epoch m cfg bns s) (train_batch m cfg bn)"
  proof -
    have e: "train_epoch m cfg [] = Inr" by (rule ext) simp
    have "train_epoch m cfg [bn] = train_batch m cfg bn" by (rule ext) (simp add: e)
    then show ?thesis by (simp add: train_epoch_append)
  qed
next
  fix s' t'
  assume a: "train_epoch m cfg bns s = Inr s'" and b: "train_batch m cfg (b, noise) s' = Inr t'"
  show "train_epoch m cfg (bns @ [(b, noise)]) s = Inr t'"
    using a b by (simp add: train_epoch_append)
  from b obtain q r where "events t' = events s' @ InitHidden (current_batch_size b)
           # replicate (training_frames cfg) LstmForward
           @ [ForwardKinematics q r] @ update_events"
    by (rule train_batch_events)
  then show "\<exists>new. events t' = events s' @ new \<and>
         core_calls new = InitHidden (current_batch_size b)
           # replicate (training_frames cfg) LstmForward \<and>
         length (fk_calls new) = 1"
    by (intro exI [of _ "InitHidden (current_batch_size b)
           # replicate (training_frames cfg) LstmForward
           @ [ForwardKinematics q r] @ update_events"]) simp
qed

theorem trailing_batch_witness:
  "list_all (\<lambda>b. current_batch_size b = batch_size (example_config 2 2)) [example_batch 2 11] \<and>
   current_batch_size (example_batch 1 11) \<noteq> batch_size (example_config 2 2) \<and>
   test_batches example_modules example_sessions (example_config 2 2) ''ONNX'' 0
     ([example_batch 2 11] @ example_batch 1 11 # []) example_test_state
     = test_all example_modules example_sessions (example_config 2 2) ''ONNX'' 0
         [example_batch 2 11] example_test_state \<and>
   map_sum id (\<lambda>s. core_calls (events s))
     (test_batches example_modules example_sessions (example_config 2 2) ''ONNX'' 0
        [example_batch 2 11, example_batch 1 11] example_test_state)
     = Inr [LstmRun, LstmRun] \<and>
   map_sum id (\<lambda>s. core_calls (events s))
     (train_epoch example_modules (example_config 2 2)
        ([(example_batch 2 13, example_noise 2)] @ [(example_batch 1 13, example_noise 1)])
        example_train_state)
     = Inr [InitHidden 2, LstmForward, LstmForward, InitHidden 1, LstmForward, LstmForward]"
proof -
  have a: "list_all (\<lambda>b. current_batch_size b = batch_size (example_config 2 2))
             [example_batch 2 11]"
    by code_simp
  have b: "current_batch_size (example_batch 1 11) \<noteq> batch_size (example_config 2 2)"
    by code_simp
  have c: "map_sum id (\<lambda>s. core_calls (events s))
     (test_batches example_modules example_sessions (example_config 2 2) ''ONNX'' 0
        [example_batch 2 11, example_batch 1 11] example_test_state)
     = Inr [LstmRun, LstmRun]"
    by code_simp
  have d: "map_sum id (\<lambda>s. core_calls (events s))
     (train_epoch example_modules (example_config 2 2)
        ([(example_batch 2 13, example_noise 2)] @ [(example_batch 1 13, example_noise 1)])
        example_train_state)
     = Inr [InitHidden 2, LstmForward, LstmForward, InitHidden 1, LstmForward, LstmForward]"
    by code_simp
  show ?thesis
    using a b c d
      trailing_batch [of "example_config 2 2" "[example_batch 2 11]" "example_batch 1 11"
        example_modules example_sessions "''ONNX''" 0 "[]" example_test_state]
    by simp
qed

end
